theory Spec2Isabelle
  imports Complex_Main
begin

section \<open>Data model\<close>

text \<open>
  The documents of the quiz backend, as the Mongoose schemas declare them. Counters are
  natural numbers, times are integers (seconds for durations, milliseconds since the epoch
  for dates), and every value the source computes by a division (score, mastery, accuracy,
  level progress) is an exact rational: the model leaves out the rounding of IEEE doubles.
  Where the source divides by a counter that may be zero, the model says so explicitly
  (see \<open>percent\<close>).

  Two records cannot share a field name, so the fields of the embedded answer and topic
  mastery documents carry a prefix (\<open>a_\<close>, \<open>tm_\<close>), and so do the attempt's copy of
  \<open>totalQuestions\<close> and its quiz reference. The nested documents \<open>streaks\<close> and
  \<open>stats\<close> of the game state are flattened (\<open>streaks.current\<close> is \<open>streak_current\<close>).
  Fields that the modelled routes never read (titles, question text and options, points,
  quiz statistics, unlocked worlds) are left out; a badge is its id.
\<close>

datatype question_type = MultipleChoice | TrueFalse | ShortAnswer

datatype difficulty = Easy | Medium | Hard

record question =
  questionId :: string
  qtype :: question_type
  correctAnswer :: string
  topic :: string
  difficulty :: difficulty
  explanation :: string

record quiz =
  questions :: "question list"
  topics :: "string list"
  totalQuestions :: nat
  timeLimit :: int
  adaptiveMode :: bool

record answer =
  a_questionId :: string
  a_answer :: string
  isCorrect :: bool
  a_timeSpent :: int
  timestamp :: int

record attempt =
  student :: string
  att_quiz :: string
  answers :: "answer list"
  score :: rat
  att_totalQuestions :: nat
  correctAnswers :: nat
  timeSpent :: int
  completedAt :: "int option"
  isCompleted :: bool

record topic_mastery =
  tm_topic :: string
  mastery :: rat
  questionsAnswered :: nat
  tm_correctAnswers :: nat

record progress =
  attempts :: "string list"
  bestScore :: rat
  totalAttempts :: nat
  lastAttempt :: "int option"
  topicMastery :: "topic_mastery list"
  weakTopics :: "string list"
  strongTopics :: "string list"

record level_doc =
  ld_level :: nat
  xpRequired :: int
  unlockedAt :: int

record game_state =
  xp :: int
  level :: nat
  currentLevel :: "level_doc option"
  badges :: "string list"
  streak_current :: nat
  streak_longest :: nat
  lastActivity :: int
  totalQuizzesCompleted :: nat
  totalQuestionsAnswered :: nat
  totalCorrectAnswers :: nat
  averageAccuracy :: "rat option"
  totalTimeSpent :: int
  fastestQuiz :: "int option"

text \<open>
  The JavaScript expression \<open>(a / b) * 100\<close> on two counters. With \<open>b = 0\<close> the source
  obtains \<open>NaN\<close> or \<open>Infinity\<close>, which is no rational number: the result is \<open>None\<close>.
\<close>

definition percent :: "nat \<Rightarrow> nat \<Rightarrow> rat option" where
  "percent a b = (if b = 0 then None else Some (of_nat a / of_nat b * 100))"

section \<open>Levels and experience (GameState methods)\<close>

record level_info =
  li_level :: nat
  xpForCurrentLevel :: int
  xpForNextLevel :: int
  li_progress :: rat

text \<open>
  The \<open>while\<close> loop of \<open>calculateLevel\<close>, on the loop variables \<open>level\<close> and
  \<open>xpForNextLevel\<close>. The threshold grows by at least 50 in every round, so the loop ends.
\<close>

function level_loop :: "int \<Rightarrow> nat \<Rightarrow> int \<Rightarrow> nat \<times> int" where
  "level_loop x lvl nxt =
     (if x \<ge> nxt then level_loop x (lvl + 1) (nxt + int (lvl + 1) * 50)
      else (lvl, nxt))"
  by pat_completeness auto
termination
  by (relation "measure (\<lambda>(x, lvl, nxt). nat (x - nxt + 1))") auto

declare level_loop.simps [simp del]

definition calculateLevel :: "game_state \<Rightarrow> level_info" where
  "calculateLevel gs =
     (let (lvl, nxt) = level_loop (xp gs) 1 100
      in \<lparr> li_level = lvl,
           xpForCurrentLevel = nxt - int lvl * 50,
           xpForNextLevel = nxt,
           li_progress = (of_int (xp gs - (nxt - int lvl * 50)) / of_int (int lvl * 50)) * 100 \<rparr>)"

record add_xp_result =
  leveledUp :: bool
  xpGained :: int
  totalXP :: int
  levelInfo :: level_info

text \<open>
  \<open>addXP\<close> mutates the document and returns a summary; the model returns both. The
  argument \<open>now\<close> is the clock reading stored in \<open>currentLevel.unlockedAt\<close> on a level-up
  (the display name \<open>Level n\<close> of that sub-document repeats the level and is not modelled).
\<close>

definition addXP :: "game_state \<Rightarrow> int \<Rightarrow> int \<Rightarrow> game_state \<times> add_xp_result" where
  "addXP gs amount now =
     (let oldLevel = level gs;
          gs1 = gs\<lparr>xp := xp gs + amount\<rparr>;
          info = calculateLevel gs1;
          gs2 = gs1\<lparr>level := li_level info\<rparr>
      in if level gs2 > oldLevel
         then (gs2\<lparr>currentLevel := Some \<lparr> ld_level = level gs2,
                                           xpRequired = xpForNextLevel info,
                                           unlockedAt = now \<rparr>\<rparr>,
               \<lparr> leveledUp = True, xpGained = amount, totalXP = xp gs2, levelInfo = info \<rparr>)
         else (gs2,
               \<lparr> leveledUp = False, xpGained = amount, totalXP = xp gs2, levelInfo = info \<rparr>))"

text \<open>
  \<open>checkBadges\<close>: the three rules in source order. A badge is represented by its id; the
  rule set appends the new ids to the document and returns them.
\<close>

definition checkBadges :: "game_state \<Rightarrow> game_state \<times> string list" where
  "checkBadges gs =
     (let newBadges =
            (if totalQuizzesCompleted gs = 1 \<and> ''first_quiz'' \<notin> set (badges gs)
             then [''first_quiz''] else [])
          @ (if averageAccuracy gs = Some 100 \<and> ''perfectionist'' \<notin> set (badges gs)
             then [''perfectionist''] else [])
          @ (if streak_current gs \<ge> 7 \<and> ''week_warrior'' \<notin> set (badges gs)
             then [''week_warrior''] else [])
      in (gs\<lparr>badges := badges gs @ newBadges\<rparr>, newBadges))"

section \<open>The reward engine (updateGameState)\<close>

text \<open>
  The clock readings of one request, in the order the source takes them: the answer's
  timestamp, the attempt's completion time, the default \<open>lastActivity\<close> of a game state
  constructed by \<open>new GameState\<close>, the \<open>unlockedAt\<close> stamp of a level-up, and the \<open>now\<close>
  of the streak update. All are milliseconds since the epoch.
\<close>

record clock =
  clk_answer :: int
  clk_completed :: int
  clk_created :: int
  clk_levelup :: int
  clk_reward :: int

text \<open>The schema defaults of a game state constructed at time \<open>created\<close>.\<close>

definition new_GameState :: "int \<Rightarrow> game_state" where
  "new_GameState created =
     \<lparr> xp = 0, level = 1, currentLevel = None, badges = [],
       streak_current = 0, streak_longest = 0, lastActivity = created,
       totalQuizzesCompleted = 0, totalQuestionsAnswered = 0, totalCorrectAnswers = 0,
       averageAccuracy = Some 0, totalTimeSpent = 0, fastestQuiz = None \<rparr>"

text \<open>The four steps of \<open>updateGameState\<close>, each under the name of its comment in the source.\<close>

definition quizXP :: "attempt \<Rightarrow> quiz \<Rightarrow> int" where
  "quizXP att qz =
     (let baseXP = 50;
          accuracyBonus = \<lfloor>score att / 10\<rfloor> * 10;
          speedBonus = (if timeSpent att < timeLimit qz * 30 then 20 else 0)
      in baseXP + accuracyBonus + speedBonus)"

definition updateStats :: "game_state \<Rightarrow> attempt \<Rightarrow> game_state" where
  "updateStats gs att =
     (let g1 = gs\<lparr>totalQuizzesCompleted := totalQuizzesCompleted gs + 1,
                   totalQuestionsAnswered := totalQuestionsAnswered gs + att_totalQuestions att,
                   totalCorrectAnswers := totalCorrectAnswers gs + correctAnswers att\<rparr>;
          g2 = g1\<lparr>averageAccuracy := percent (totalCorrectAnswers g1) (totalQuestionsAnswered g1),
                   totalTimeSpent := totalTimeSpent g1 + timeSpent att div 60\<rparr>
      in if (case fastestQuiz g2 of None \<Rightarrow> True | Some f \<Rightarrow> f = 0 \<or> timeSpent att < f)
         then g2\<lparr>fastestQuiz := Some (timeSpent att)\<rparr>
         else g2)"

definition updateStreak :: "game_state \<Rightarrow> int \<Rightarrow> game_state" where
  "updateStreak gs now =
     (let daysDiff = (now - lastActivity gs) div (1000 * 60 * 60 * 24);
          g1 = (if daysDiff = 1 then gs\<lparr>streak_current := streak_current gs + 1\<rparr>
                else if daysDiff > 1 then gs\<lparr>streak_current := 1\<rparr>
                else gs);
          g2 = (if streak_current g1 > streak_longest g1
                then g1\<lparr>streak_longest := streak_current g1\<rparr>
                else g1)
      in g2\<lparr>lastActivity := now\<rparr>)"

record reward_result =
  levelResult :: add_xp_result
  newBadges :: "string list"
  rr_xpGained :: int

text \<open>
  \<open>updateGameState\<close> on the document \<open>GameState.findOne\<close> returned (\<open>None\<close> when the
  student has none yet). It returns the document as saved and the summary.
\<close>

definition updateGameState ::
    "game_state option \<Rightarrow> attempt \<Rightarrow> quiz \<Rightarrow> clock \<Rightarrow> game_state \<times> reward_result" where
  "updateGameState found att qz clk =
     (let gameState = (case found of None \<Rightarrow> new_GameState (clk_created clk) | Some g \<Rightarrow> g);
          totalXP = quizXP att qz;
          (g1, lr) = addXP gameState totalXP (clk_levelup clk);
          g2 = updateStats g1 att;
          g3 = updateStreak g2 (clk_reward clk);
          (g4, nb) = checkBadges g3
      in (g4, \<lparr> levelResult = lr, newBadges = nb, rr_xpGained = totalXP \<rparr>))"

section \<open>Question selection\<close>

text \<open>\<open>attempt.answers.find(a => a.questionId === q.questionId)\<close> as a test.\<close>

definition answered :: "attempt \<Rightarrow> question \<Rightarrow> bool" where
  "answered att q = (\<exists>a \<in> set (answers att). a_questionId a = questionId q)"

text \<open>
  \<open>getNextQuestion\<close>, the helper of the submit route, with its two candidate lists. Its
  fallback draws \<open>Math.random()\<close>; the model takes the drawn number as the argument
  \<open>rnd\<close> (in the source \<open>0 \<le> rnd < 1\<close>). An index out of range reads \<open>undefined\<close> in
  JavaScript: \<open>None\<close>.
\<close>

definition weakTopicQuestions :: "quiz \<Rightarrow> attempt \<Rightarrow> progress option \<Rightarrow> question list" where
  "weakTopicQuestions qz att prog =
     (case prog of
        None \<Rightarrow> []
      | Some p \<Rightarrow>
          if length (weakTopics p) > 0
          then filter (\<lambda>q. topic q \<in> set (weakTopics p) \<and> \<not> answered att q) (questions qz)
          else [])"

definition unansweredQuestions :: "quiz \<Rightarrow> attempt \<Rightarrow> question list" where
  "unansweredQuestions qz att = filter (\<lambda>q. \<not> answered att q) (questions qz)"

definition getNextQuestion :: "quiz \<Rightarrow> attempt \<Rightarrow> progress option \<Rightarrow> rat \<Rightarrow> question option" where
  "getNextQuestion qz att prog rnd =
     (let i = nat \<lfloor>rnd * of_nat (length (unansweredQuestions qz att))\<rfloor>
      in if length (weakTopicQuestions qz att prog) > 0
         then Some (hd (weakTopicQuestions qz att prog))
         else if length (unansweredQuestions qz att) > 0
         then (if i < length (unansweredQuestions qz att)
               then Some (unansweredQuestions qz att ! i) else None)
         else None)"

section \<open>The stored documents and the routes\<close>

text \<open>
  The collections of the data store as maps: attempts and quizzes by id, progress records
  by (student, quiz), game states by student. Saving a document is an update of the map.
  The one save that the store can refuse on a request of the model's type, that of an
  attempt with an empty answer, is a branch of the submit route.
\<close>

record db =
  Attempt_coll :: "string \<rightharpoonup> attempt"
  Quiz_coll :: "string \<rightharpoonup> quiz"
  Progress_coll :: "string \<times> string \<rightharpoonup> progress"
  GameState_coll :: "string \<rightharpoonup> game_state"

datatype role = Student | Instructor

text \<open>
  The responses that end a request early, by the status and message the route sends.
  \<open>ServerError\<close> is the \<open>catch\<close> block (status 500). \<open>NonFinite\<close> is no response of the
  source: it marks a run in which the source computes a score by dividing by a
  \<open>totalQuestions\<close> of zero, which leaves the rational numbers; the model stops there.
\<close>

datatype error =
    OnlyStudents
  | AttemptNotFound
  | AccessDenied
  | QuestionNotFound
  | NotAdaptive
  | ServerError
  | NonFinite

subsection \<open>Starting an attempt: the documents created\<close>

text \<open>
  The progress record and the attempt that the start route constructs, and its entry of
  the new attempt in the progress record. (The checks of the start route, on role,
  enrolment and the quiz being active, are not modelled.)
\<close>

definition new_Progress :: "quiz \<Rightarrow> progress" where
  "new_Progress qz =
     \<lparr> attempts = [], bestScore = 0, totalAttempts = 0, lastAttempt = None,
       topicMastery = map (\<lambda>name. \<lparr> tm_topic = name, mastery = 0,
                                      questionsAnswered = 0, tm_correctAnswers = 0 \<rparr>) (topics qz),
       weakTopics = [], strongTopics = [] \<rparr>"

definition new_Attempt :: "string \<Rightarrow> string \<Rightarrow> quiz \<Rightarrow> attempt" where
  "new_Attempt user quizId qz =
     \<lparr> student = user, att_quiz = quizId, answers = [], score = 0,
       att_totalQuestions = totalQuestions qz, correctAnswers = 0, timeSpent = 0,
       completedAt = None, isCompleted = False \<rparr>"

definition registerAttempt :: "string \<Rightarrow> int \<Rightarrow> progress \<Rightarrow> progress" where
  "registerAttempt attemptId now p =
     p\<lparr>attempts := attempts p @ [attemptId],
       totalAttempts := totalAttempts p + 1,
       lastAttempt := Some now\<rparr>"

subsection \<open>Grading an answer\<close>

text \<open>
  \<open>toLowerCase\<close> and \<open>trim\<close>. A character of the model is a code unit below 256, so
  the model's strings are the JavaScript strings of Latin-1 characters. Among these the
  upper-case letters are A to Z (65 to 90) and the accented letters 192 to 222 without the
  multiplication sign 215, each 32 below its lower-case form; the white space and line
  terminators that \<open>trim\<close> strips are tab, line feed, vertical tab, form feed, carriage
  return, space and the no-break space 160.
\<close>

definition toLowerCase :: "string \<Rightarrow> string" where
  "toLowerCase s =
     map (\<lambda>c. let n = (of_char c :: nat)
              in if (65 \<le> n \<and> n \<le> 90) \<or> (192 \<le> n \<and> n \<le> 222 \<and> n \<noteq> 215)
                 then char_of (n + 32) else c) s"

definition isWhiteSpace :: "char \<Rightarrow> bool" where
  "isWhiteSpace c = ((of_char c :: nat) \<in> {9, 10, 11, 12, 13, 32, 160})"

definition trim :: "string \<Rightarrow> string" where
  "trim s = rev (dropWhile isWhiteSpace (rev (dropWhile isWhiteSpace s)))"

definition isAnswerCorrect :: "question \<Rightarrow> string \<Rightarrow> bool" where
  "isAnswerCorrect q ans =
     (case qtype q of
        MultipleChoice \<Rightarrow> ans = correctAnswer q
      | TrueFalse \<Rightarrow> ans = correctAnswer q
      | ShortAnswer \<Rightarrow> trim (toLowerCase ans) = trim (toLowerCase (correctAnswer q)))"

subsection \<open>The mastery tracker\<close>

text \<open>\<open>Array.prototype.findIndex\<close>: the first index whose element passes, \<open>None\<close> for \<open>-1\<close>.\<close>

fun findIndex :: "('a \<Rightarrow> bool) \<Rightarrow> 'a list \<Rightarrow> nat option" where
  "findIndex P [] = None"
| "findIndex P (x # xs) = (if P x then Some 0 else map_option Suc (findIndex P xs))"

text \<open>
  The update of one topic entry after an answer. The divisor is the counter just
  incremented, so it is positive.
\<close>

definition bumpEntry :: "bool \<Rightarrow> topic_mastery \<Rightarrow> topic_mastery" where
  "bumpEntry correct e =
     (let e1 = e\<lparr>questionsAnswered := questionsAnswered e + 1\<rparr>;
          e2 = (if correct then e1\<lparr>tm_correctAnswers := tm_correctAnswers e1 + 1\<rparr> else e1)
      in e2\<lparr>mastery := (of_nat (tm_correctAnswers e2) / of_nat (questionsAnswered e2)) * 100\<rparr>)"

definition updateTopicMastery :: "question \<Rightarrow> bool \<Rightarrow> progress \<Rightarrow> progress" where
  "updateTopicMastery q correct p =
     (case findIndex (\<lambda>tm. tm_topic tm = topic q) (topicMastery p) of
        None \<Rightarrow> p
      | Some topicIndex \<Rightarrow>
          p\<lparr>topicMastery :=
               (topicMastery p)[topicIndex := bumpEntry correct (topicMastery p ! topicIndex)]\<rparr>)"

text \<open>The progress update of the completion branch: best score, weak and strong topics.\<close>

definition finalizeProgress :: "attempt \<Rightarrow> progress \<Rightarrow> progress" where
  "finalizeProgress att p =
     (let p1 = (if score att > bestScore p then p\<lparr>bestScore := score att\<rparr> else p)
      in p1\<lparr>weakTopics :=
               map tm_topic (filter (\<lambda>tm. mastery tm < 70 \<and> questionsAnswered tm > 0)
                              (topicMastery p1)),
             strongTopics :=
               map tm_topic (filter (\<lambda>tm. mastery tm \<ge> 80 \<and> questionsAnswered tm > 0)
                              (topicMastery p1))\<rparr>)"

subsection \<open>POST /submit-answer\<close>

record submit_request =
  req_role :: role
  req_user :: string
  req_attemptId :: string
  req_questionId :: string
  req_answer :: string
  req_timeSpent :: "int option"

text \<open>
  The two success responses: \<open>QuizCompleted score correctAnswers totalQuestions timeSpent\<close>
  and \<open>AnswerSubmitted isCorrect correctAnswer explanation nextQuestion questionNumber
  timeRemaining\<close>.
\<close>

datatype submit_response =
    QuizCompleted rat nat nat int
  | AnswerSubmitted bool string string "question option" nat int

text \<open>
  "Add answer to attempt": the attempt after the answer record is pushed, the time added
  and the correct answer counted. The request's \<open>timeSpent\<close> is \<open>None\<close> when the body has
  none (\<open>timeSpent || 0\<close>).
\<close>

definition answerData :: "question \<Rightarrow> submit_request \<Rightarrow> clock \<Rightarrow> answer" where
  "answerData qn req clk =
     \<lparr> a_questionId = req_questionId req, a_answer = req_answer req,
       isCorrect = isAnswerCorrect qn (req_answer req),
       a_timeSpent = (case req_timeSpent req of None \<Rightarrow> 0 | Some t \<Rightarrow> t),
       timestamp = clk_answer clk \<rparr>"

definition recordAnswer :: "question \<Rightarrow> submit_request \<Rightarrow> clock \<Rightarrow> attempt \<Rightarrow> attempt" where
  "recordAnswer qn req clk att =
     att\<lparr>answers := answers att @ [answerData qn req clk],
         timeSpent := timeSpent att + (case req_timeSpent req of None \<Rightarrow> 0 | Some t \<Rightarrow> t),
         correctAnswers := correctAnswers att
                             + (if isAnswerCorrect qn (req_answer req) then 1 else 0)\<rparr>"

text \<open>"Calculate final score": the attempt as saved in the completion branch.\<close>

definition completeAttempt :: "rat \<Rightarrow> clock \<Rightarrow> attempt \<Rightarrow> attempt" where
  "completeAttempt sc clk att =
     att\<lparr>score := sc, isCompleted := True, completedAt := Some (clk_completed clk)\<rparr>"

text \<open>
  The route. The attempt is saved after the answer is appended and again on completion.
  The answer schema declares \<open>answer\<close> as required, and the store refuses a required
  string that is empty: with an empty answer the first save throws, the \<open>catch\<close> block
  answers with status 500 and nothing is stored. (The other required fields of the answer
  record are always set: the question id is that of a question found in the quiz.)
  The progress record is changed in memory after every answer but saved only in the
  completion branch; the game state is saved by \<open>updateGameState\<close>, whose summary the
  route drops. The argument \<open>rnd\<close> is the random number \<open>getNextQuestion\<close> may draw.
\<close>

definition submitAnswer ::
    "db \<Rightarrow> submit_request \<Rightarrow> clock \<Rightarrow> rat \<Rightarrow> error + (submit_response \<times> db)" where
  "submitAnswer d req clk rnd =
     (if req_role req \<noteq> Student then Inl OnlyStudents
      else (case Attempt_coll d (req_attemptId req) of
        None \<Rightarrow> Inl AttemptNotFound
      | Some att \<Rightarrow>
      if student att \<noteq> req_user req then Inl AccessDenied
      else (case Quiz_coll d (att_quiz att) of
        None \<Rightarrow> Inl ServerError
      | Some qz \<Rightarrow>
      (case find (\<lambda>q. questionId q = req_questionId req) (questions qz) of
        None \<Rightarrow> Inl QuestionNotFound
      | Some qn \<Rightarrow>
          if req_answer req = [] then Inl ServerError
          else
          let correct = isAnswerCorrect qn (req_answer req);
              att1 = recordAnswer qn req clk att;
              d1 = d\<lparr>Attempt_coll := (Attempt_coll d)(req_attemptId req \<mapsto> att1)\<rparr>;
              pkey = (req_user req, att_quiz att);
              prog = map_option (updateTopicMastery qn correct) (Progress_coll d1 pkey)
          in if length (answers att1) \<ge> totalQuestions qz
             then (case percent (correctAnswers att1) (totalQuestions qz) of
                     None \<Rightarrow> Inl NonFinite
                   | Some sc \<Rightarrow>
                       let att2 = completeAttempt sc clk att1;
                           d2 = d1\<lparr>Attempt_coll := (Attempt_coll d1)(req_attemptId req \<mapsto> att2)\<rparr>;
                           d3 = (case prog of
                                   None \<Rightarrow> d2
                                 | Some p \<Rightarrow>
                                     d2\<lparr>Progress_coll :=
                                          (Progress_coll d2)(pkey \<mapsto> finalizeProgress att2 p)\<rparr>);
                           gs = fst (updateGameState (GameState_coll d3 (req_user req)) att2 qz clk);
                           d4 = d3\<lparr>GameState_coll := (GameState_coll d3)(req_user req \<mapsto> gs)\<rparr>
                       in Inr (QuizCompleted sc (correctAnswers att2) (totalQuestions qz)
                                 (timeSpent att2), d4))
             else Inr (AnswerSubmitted correct (correctAnswer qn) (explanation qn)
                         (getNextQuestion qz att1 prog rnd)
                         (length (answers att1) + 1)
                         (timeLimit qz * 60 - timeSpent att1), d1)))))"

subsection \<open>GET /adaptive/next/:attemptId\<close>

text \<open>
  The difficulty the route aims at, from the number of correct answers and the number of
  answers (\<open>currentAccuracy = correctAnswers / answeredQuestions\<close>, compared with 0.8 and 0.6).
  The route calls it only with at least one answer. The quotient is exact here; the
  doubles of the source compare in the same way for any number of answers a quiz can have.
\<close>

definition nextDifficulty :: "nat \<Rightarrow> nat \<Rightarrow> difficulty" where
  "nextDifficulty correct answeredQuestions =
     (let currentAccuracy = (of_nat correct / of_nat answeredQuestions :: rat)
      in if currentAccuracy \<ge> 8 / 10 then Hard
         else if currentAccuracy \<ge> 6 / 10 then Medium
         else Easy)"

text \<open>
  The responses: \<open>AdaptiveFirst easyQuestion\<close> (no answer yet; the question is \<open>None\<close> when
  the quiz has no easy question), \<open>AdaptiveNext question questionNumber accuracy difficulty\<close>
  and \<open>AdaptiveComplete accuracy difficulty\<close>.
\<close>

datatype adaptive_response =
    AdaptiveFirst "question option"
  | AdaptiveNext question nat rat difficulty
  | AdaptiveComplete rat difficulty

text \<open>The two candidate lists of the route.\<close>

definition availableQuestions :: "quiz \<Rightarrow> attempt \<Rightarrow> difficulty \<Rightarrow> question list" where
  "availableQuestions qz att target =
     filter (\<lambda>q. difficulty q = target \<and> \<not> answered att q) (questions qz)"

definition allRemainingQuestions :: "quiz \<Rightarrow> attempt \<Rightarrow> question list" where
  "allRemainingQuestions qz att = filter (\<lambda>q. \<not> answered att q) (questions qz)"

definition adaptiveNext :: "db \<Rightarrow> role \<Rightarrow> string \<Rightarrow> string \<Rightarrow> error + adaptive_response" where
  "adaptiveNext d rl user attemptId =
     (if rl \<noteq> Student then Inl OnlyStudents
      else (case Attempt_coll d attemptId of
        None \<Rightarrow> Inl AttemptNotFound
      | Some att \<Rightarrow>
      if student att \<noteq> user then Inl AccessDenied
      else (case Quiz_coll d (att_quiz att) of
        None \<Rightarrow> Inl ServerError
      | Some qz \<Rightarrow>
      if \<not> adaptiveMode qz then Inl NotAdaptive
      else
        let answeredQuestions = length (answers att)
        in if answeredQuestions = 0
           then Inr (AdaptiveFirst (find (\<lambda>q. difficulty q = Easy) (questions qz)))
           else
             let correct = length (filter isCorrect (answers att));
                 currentAccuracy = (of_nat correct / of_nat answeredQuestions :: rat);
                 target = nextDifficulty correct answeredQuestions
             in if length (availableQuestions qz att target) = 0
                then
                  (if length (allRemainingQuestions qz att) = 0
                   then Inr (AdaptiveComplete currentAccuracy target)
                   else Inr (AdaptiveNext (hd (allRemainingQuestions qz att))
                               (answeredQuestions + 1) currentAccuracy target))
                else Inr (AdaptiveNext (hd (availableQuestions qz att target))
                            (answeredQuestions + 1) currentAccuracy target))))"

section \<open>Example documents\<close>

text \<open>
  A quiz of three questions on two topics, and a student \<open>s1\<close> who has started attempt
  \<open>a1\<close> on it: the store holds the documents of the start route.
\<close>

definition mkQuestion :: "string \<Rightarrow> string \<Rightarrow> difficulty \<Rightarrow> question" where
  "mkQuestion qid tp df =
     \<lparr> questionId = qid, qtype = MultipleChoice, correctAnswer = ''A'', topic = tp,
       difficulty = df, explanation = [] \<rparr>"

definition quiz3 :: quiz where
  "quiz3 = \<lparr> questions = [mkQuestion ''q1'' ''TA'' Easy, mkQuestion ''q2'' ''TA'' Medium,
                          mkQuestion ''q3'' ''TB'' Hard],
             topics = [''TA'', ''TB''], totalQuestions = 3, timeLimit = 30,
             adaptiveMode = False \<rparr>"

definition progress0 :: progress where
  "progress0 = registerAttempt ''a1'' 900 (new_Progress quiz3)"

definition db0 :: db where
  "db0 = \<lparr> Attempt_coll = [''a1'' \<mapsto> new_Attempt ''s1'' ''z1'' quiz3],
           Quiz_coll = [''z1'' \<mapsto> quiz3],
           Progress_coll = [(''s1'', ''z1'') \<mapsto> progress0],
           GameState_coll = Map.empty \<rparr>"

text \<open>
  The requests of that student, the clock readings of the examples (\<open>clockAt t\<close> puts the
  reward step at time \<open>t\<close>), and the store after a request: the store the route leaves, or
  the old store when the route refuses the request.
\<close>

definition submitReq :: "string \<Rightarrow> string \<Rightarrow> submit_request" where
  "submitReq qid ans =
     \<lparr> req_role = Student, req_user = ''s1'', req_attemptId = ''a1'',
       req_questionId = qid, req_answer = ans, req_timeSpent = Some 10 \<rparr>"

definition clock0 :: clock where
  "clock0 = \<lparr> clk_answer = 1000, clk_completed = 1001, clk_created = 1002,
              clk_levelup = 1003, clk_reward = 1004 \<rparr>"

definition clockAt :: "int \<Rightarrow> clock" where
  "clockAt t = clock0\<lparr>clk_reward := t\<rparr>"

definition after :: "db \<Rightarrow> submit_request \<Rightarrow> db" where
  "after d req = (case submitAnswer d req clock0 0 of Inl e \<Rightarrow> d | Inr (r, d') \<Rightarrow> d')"

text \<open>
  The stores after a right answer to \<open>q1\<close> and then a wrong answer to \<open>q2\<close>, the
  attempts they hold, and the attempt after a wrong answer to \<open>q3\<close> has completed it.
\<close>

definition db1 :: db where
  "db1 = after db0 (submitReq ''q1'' ''A'')"

definition attempt1 :: attempt where
  "attempt1 =
     \<lparr> student = ''s1'', att_quiz = ''z1'',
       answers =
         [\<lparr> a_questionId = ''q1'', a_answer = ''A'', isCorrect = True,
             a_timeSpent = 10, timestamp = 1000 \<rparr>],
       score = 0, att_totalQuestions = 3, correctAnswers = 1,
       timeSpent = 10, completedAt = None, isCompleted = False \<rparr>"

definition db2 :: db where
  "db2 = after db1 (submitReq ''q2'' ''B'')"

definition attempt2 :: attempt where
  "attempt2 =
     \<lparr> student = ''s1'', att_quiz = ''z1'',
       answers =
         [\<lparr> a_questionId = ''q1'', a_answer = ''A'', isCorrect = True,
             a_timeSpent = 10, timestamp = 1000 \<rparr>,
          \<lparr> a_questionId = ''q2'', a_answer = ''B'', isCorrect = False,
             a_timeSpent = 10, timestamp = 1000 \<rparr>],
       score = 0, att_totalQuestions = 3, correctAnswers = 1,
       timeSpent = 20, completedAt = None, isCompleted = False \<rparr>"


text \<open>
  A quiz of one question that names two topics, and the store after a student has
  started an attempt on it.
\<close>

definition quiz1 :: quiz where
  "quiz1 = \<lparr> questions = [mkQuestion ''q1'' ''TA'' Easy], topics = [''TA'', ''TB''],
             totalQuestions = 1, timeLimit = 30, adaptiveMode = False \<rparr>"

definition db_one :: db where
  "db_one = \<lparr> Attempt_coll = [''a1'' \<mapsto> new_Attempt ''s1'' ''z1'' quiz1],
              Quiz_coll = [''z1'' \<mapsto> quiz1],
              Progress_coll = [(''s1'', ''z1'') \<mapsto> registerAttempt ''a1'' 900 (new_Progress quiz1)],
              GameState_coll = Map.empty \<rparr>"

text \<open>
  The quiz of the adaptive scenario: three easy, three medium and three hard questions,
  adaptive mode on. \<open>db9start\<close> is the store of a student who has just started a first
  attempt on it, and \<open>attempt9\<close> is that attempt after a wrong answer to the first easy
  question. \<open>progress9\<close> is the progress record of a student who has taken the quiz
  before and has the topic of the hard questions listed as weak.
\<close>

definition quiz9 :: quiz where
  "quiz9 = \<lparr> questions = [mkQuestion ''e1'' ''T1'' Easy, mkQuestion ''e2'' ''T1'' Easy,
                          mkQuestion ''e3'' ''T1'' Easy, mkQuestion ''m1'' ''T2'' Medium,
                          mkQuestion ''m2'' ''T2'' Medium, mkQuestion ''m3'' ''T2'' Medium,
                          mkQuestion ''h1'' ''T3'' Hard, mkQuestion ''h2'' ''T3'' Hard,
                          mkQuestion ''h3'' ''T3'' Hard],
             topics = [''T1'', ''T2'', ''T3''], totalQuestions = 9, timeLimit = 30,
             adaptiveMode = True \<rparr>"

definition submitReq9 :: "string \<Rightarrow> string \<Rightarrow> submit_request" where
  "submitReq9 qid ans =
     \<lparr> req_role = Student, req_user = ''s1'', req_attemptId = ''a9'',
       req_questionId = qid, req_answer = ans, req_timeSpent = Some 10 \<rparr>"

definition db9start :: db where
  "db9start =
     \<lparr> Attempt_coll = [''a9'' \<mapsto> new_Attempt ''s1'' ''z9'' quiz9],
       Quiz_coll = [''z9'' \<mapsto> quiz9],
       Progress_coll = [(''s1'', ''z9'') \<mapsto> registerAttempt ''a9'' 900 (new_Progress quiz9)],
       GameState_coll = Map.empty \<rparr>"

definition attempt9 :: attempt where
  "attempt9 = (new_Attempt ''s1'' ''z9'' quiz9)
     \<lparr>answers := [\<lparr> a_questionId = ''e1'', a_answer = ''B'', isCorrect = False,
                     a_timeSpent = 10, timestamp = 1000 \<rparr>],
      timeSpent := 10\<rparr>"

definition progress9 :: progress where
  "progress9 = (registerAttempt ''a9'' 900 (registerAttempt ''a8'' 100 (new_Progress quiz9)))
     \<lparr>weakTopics := [''T3'']\<rparr>"

text \<open>
  The same nine questions in reverse order, hard ones first, so that the first unanswered
  question and the first unanswered question of a given difficulty differ; answer records
  for them, and the store that holds a student's attempt \<open>a9\<close> on this quiz with given
  answers, of which \<open>c\<close> are right.
\<close>

definition quiz9r :: quiz where
  "quiz9r = quiz9\<lparr>questions := rev (questions quiz9)\<rparr>"

definition wrongAnswer :: "string \<Rightarrow> answer" where
  "wrongAnswer qid =
     \<lparr> a_questionId = qid, a_answer = ''B'', isCorrect = False, a_timeSpent = 10,
       timestamp = 1000 \<rparr>"

definition rightAnswer :: "string \<Rightarrow> answer" where
  "rightAnswer qid =
     \<lparr> a_questionId = qid, a_answer = ''A'', isCorrect = True, a_timeSpent = 10,
       timestamp = 1000 \<rparr>"

definition attempt9r :: "answer list \<Rightarrow> nat \<Rightarrow> attempt" where
  "attempt9r as c = (new_Attempt ''s1'' ''z9r'' quiz9r)
     \<lparr>answers := as, correctAnswers := c, timeSpent := 10 * int (length as)\<rparr>"

definition db9r :: "answer list \<Rightarrow> nat \<Rightarrow> db" where
  "db9r as c =
     \<lparr> Attempt_coll = [''a9'' \<mapsto> attempt9r as c],
       Quiz_coll = [''z9r'' \<mapsto> quiz9r],
       Progress_coll = [(''s1'', ''z9r'') \<mapsto> registerAttempt ''a9'' 900 (new_Progress quiz9r)],
       GameState_coll = Map.empty \<rparr>"

text \<open>
  A completed attempt on \<open>quiz3\<close> with three right answers in 100 seconds, and a game
  state with a streak whose last activity was at 23:00 of day 0.
\<close>

definition attemptFull :: attempt where
  "attemptFull = (new_Attempt ''s1'' ''z1'' quiz3)
     \<lparr>answers :=
        [\<lparr> a_questionId = ''q1'', a_answer = ''A'', isCorrect = True,
            a_timeSpent = 30, timestamp = 1000 \<rparr>,
         \<lparr> a_questionId = ''q2'', a_answer = ''A'', isCorrect = True,
            a_timeSpent = 30, timestamp = 1000 \<rparr>,
         \<lparr> a_questionId = ''q3'', a_answer = ''A'', isCorrect = True,
            a_timeSpent = 40, timestamp = 1000 \<rparr>],
      score := 100, correctAnswers := 3, timeSpent := 100,
      completedAt := Some 1001, isCompleted := True\<rparr>"

definition gameState3 :: game_state where
  "gameState3 = (new_GameState 0)
     \<lparr>streak_current := 3, streak_longest := 5, lastActivity := 82800000\<rparr>"

section \<open>Notions of the specification used to state the claims\<close>

text \<open>
  The calendar date of an instant, which the specification's streak rule compares and the
  source does not compute: the number of the UTC day that holds the instant.
\<close>

definition spec_calendarDay :: "int \<Rightarrow> int" where
  "spec_calendarDay t = t div 86400000"

text \<open>
  Two invariants of the topic entries of a progress record. \<open>masteryConsistent\<close>: an entry
  that has counted an answer stores the percentage of its two counters, and an entry that
  has counted none stores 0.
  \<open>firstEntryCounts\<close>: an entry that repeats the topic name of an earlier entry has counted
  no answer (the update always goes to the first entry of a name).
\<close>

definition masteryConsistent :: "topic_mastery \<Rightarrow> bool" where
  "masteryConsistent e =
     (if questionsAnswered e = 0 then mastery e = 0
      else percent (tm_correctAnswers e) (questionsAnswered e) = Some (mastery e))"

fun firstEntryCounts :: "topic_mastery list \<Rightarrow> bool" where
  "firstEntryCounts [] = True"
| "firstEntryCounts (e # es) =
     ((\<forall>u \<in> set es. tm_topic u = tm_topic e \<longrightarrow> questionsAnswered u = 0)
      \<and> firstEntryCounts es)"

section \<open>Properties of the level curve\<close>

lemma level_loop_ge: "lvl \<le> fst (level_loop x lvl nxt)"
proof (induction x lvl nxt rule: level_loop.induct)
  case (1 x lvl nxt)
  show ?case
  proof (cases "x \<ge> nxt")
    case True
    with 1 have "lvl + 1 \<le> fst (level_loop x (lvl + 1) (nxt + int (lvl + 1) * 50))"
      by simp
    with True show ?thesis
      by (subst level_loop.simps) simp
  next
    case False
    then show ?thesis
      by (subst level_loop.simps) simp
  qed
qed

lemma level_loop_mono:
  "x \<le> y \<Longrightarrow> fst (level_loop x lvl nxt) \<le> fst (level_loop y lvl nxt)"
proof (induction x lvl nxt rule: level_loop.induct)
  case (1 x lvl nxt)
  show ?case
  proof (cases "x \<ge> nxt")
    case True
    with 1 have ih: "fst (level_loop x (lvl + 1) (nxt + int (lvl + 1) * 50))
        \<le> fst (level_loop y (lvl + 1) (nxt + int (lvl + 1) * 50))"
      by simp
    from True "1.prems" have "y \<ge> nxt" by simp
    then have r: "level_loop y lvl nxt = level_loop y (lvl + 1) (nxt + int (lvl + 1) * 50)"
      by (subst level_loop.simps) simp
    from True have l: "level_loop x lvl nxt = level_loop x (lvl + 1) (nxt + int (lvl + 1) * 50)"
      by (subst level_loop.simps) simp
    from ih l r show ?thesis by simp
  next
    case False
    then have "level_loop x lvl nxt = (lvl, nxt)"
      by (subst level_loop.simps) simp
    then show ?thesis
      using level_loop_ge [of lvl y nxt] by simp
  qed
qed

section \<open>The branches of the submit route\<close>

lemma floor_rat_numeral [simp]:
  "\<lfloor>numeral a / numeral b :: rat\<rfloor> = numeral a div numeral b"
  using floor_divide_of_int_eq [of "numeral a" "numeral b", where ?'a = rat] by simp

lemma answers_recordAnswer [simp]:
  "answers (recordAnswer qn req clk att) = answers att @ [answerData qn req clk]"
  by (simp add: recordAnswer_def)

lemma timeSpent_recordAnswer [simp]:
  "timeSpent (recordAnswer qn req clk att)
     = timeSpent att + (case req_timeSpent req of None \<Rightarrow> 0 | Some t \<Rightarrow> t)"
  by (simp add: recordAnswer_def)

lemma correctAnswers_recordAnswer [simp]:
  "correctAnswers (recordAnswer qn req clk att)
     = correctAnswers att + (if isAnswerCorrect qn (req_answer req) then 1 else 0)"
  by (simp add: recordAnswer_def)

text \<open>An answer that does not complete the attempt: only the attempt is saved.\<close>

lemma submitAnswer_continue:
  assumes "req_role req = Student"
    and "Attempt_coll d (req_attemptId req) = Some att"
    and "student att = req_user req"
    and "Quiz_coll d (att_quiz att) = Some qz"
    and "find (\<lambda>q. questionId q = req_questionId req) (questions qz) = Some qn"
    and "req_answer req \<noteq> []"
    and "length (answers att) + 1 < totalQuestions qz"
  shows "submitAnswer d req clk rnd =
           Inr (AnswerSubmitted (isAnswerCorrect qn (req_answer req)) (correctAnswer qn)
                  (explanation qn)
                  (getNextQuestion qz (recordAnswer qn req clk att)
                     (map_option (updateTopicMastery qn (isAnswerCorrect qn (req_answer req)))
                        (Progress_coll d (req_user req, att_quiz att))) rnd)
                  (length (answers att) + 2)
                  (timeLimit qz * 60 - timeSpent (recordAnswer qn req clk att)),
                d\<lparr>Attempt_coll :=
                     (Attempt_coll d)(req_attemptId req \<mapsto> recordAnswer qn req clk att)\<rparr>)"
  using assms by (simp add: submitAnswer_def Let_def)

text \<open>An empty answer: the save is refused.\<close>

lemma submitAnswer_empty_answer:
  assumes "req_role req = Student"
    and "Attempt_coll d (req_attemptId req) = Some att"
    and "student att = req_user req"
    and "Quiz_coll d (att_quiz att) = Some qz"
    and "find (\<lambda>q. questionId q = req_questionId req) (questions qz) = Some qn"
    and "req_answer req = []"
  shows "submitAnswer d req clk rnd = Inl ServerError"
  using assms by (simp add: submitAnswer_def)

text \<open>The answer that completes the attempt: attempt, progress and game state are saved.\<close>

lemma submitAnswer_complete:
  fixes clk :: clock and req :: submit_request
  assumes "req_role req = Student"
    and "Attempt_coll d (req_attemptId req) = Some att"
    and "student att = req_user req"
    and "Quiz_coll d (att_quiz att) = Some qz"
    and "find (\<lambda>q. questionId q = req_questionId req) (questions qz) = Some qn"
    and "req_answer req \<noteq> []"
    and "totalQuestions qz \<le> length (answers att) + 1"
    and "0 < totalQuestions qz"
  defines "att1 \<equiv> recordAnswer qn req clk att"
  defines "att2 \<equiv>
    completeAttempt (of_nat (correctAnswers att1) / of_nat (totalQuestions qz) * 100) clk att1"
  shows "submitAnswer d req clk rnd =
           Inr (QuizCompleted (score att2) (correctAnswers att2) (totalQuestions qz)
                  (timeSpent att2),
                d\<lparr>Attempt_coll := (Attempt_coll d)(req_attemptId req \<mapsto> att2),
                   Progress_coll :=
                     (case Progress_coll d (req_user req, att_quiz att) of
                        None \<Rightarrow> Progress_coll d
                      | Some p \<Rightarrow>
                          (Progress_coll d)((req_user req, att_quiz att) \<mapsto>
                             finalizeProgress att2
                               (updateTopicMastery qn (isAnswerCorrect qn (req_answer req)) p))),
                   GameState_coll :=
                     (GameState_coll d)(req_user req \<mapsto>
                        fst (updateGameState (GameState_coll d (req_user req)) att2 qz clk))\<rparr>)"
proof (cases "Progress_coll d (req_user req, att_quiz att)")
  case None
  with assms show ?thesis
    by (simp add: submitAnswer_def Let_def percent_def completeAttempt_def)
next
  case (Some p)
  with assms show ?thesis
    by (simp add: submitAnswer_def Let_def percent_def completeAttempt_def)
qed

section \<open>Facts about candidate lists\<close>

lemma answered_iff: "answered att q \<longleftrightarrow> questionId q \<in> a_questionId ` set (answers att)"
  unfolding answered_def image_iff by metis

lemma hd_filter: "filter P xs \<noteq> [] \<Longrightarrow> hd (filter P xs) \<in> set xs \<and> P (hd (filter P xs))"
  using hd_in_set [of "filter P xs"] by simp

lemma filter_conj_empty: "filter Q xs = [] \<Longrightarrow> filter (\<lambda>x. P x \<and> Q x) xs = []"
  by (induction xs) (auto split: if_splits)

section \<open>The random index of getNextQuestion\<close>




section \<open>What each step of the reward engine changes\<close>

lemma addXP_fields [simp]:
  "xp (fst (addXP g amount now)) = xp g + amount"
  "level (fst (addXP g amount now)) = li_level (calculateLevel (g\<lparr>xp := xp g + amount\<rparr>))"
  "streak_current (fst (addXP g amount now)) = streak_current g"
  "streak_longest (fst (addXP g amount now)) = streak_longest g"
  "lastActivity (fst (addXP g amount now)) = lastActivity g"
  by (simp_all add: addXP_def Let_def)

lemma updateStats_fields [simp]:
  "xp (updateStats g att) = xp g"
  "level (updateStats g att) = level g"
  "streak_current (updateStats g att) = streak_current g"
  "streak_longest (updateStats g att) = streak_longest g"
  "lastActivity (updateStats g att) = lastActivity g"
  by (simp_all add: updateStats_def Let_def)

lemma updateStreak_fields [simp]:
  "xp (updateStreak g now) = xp g"
  "level (updateStreak g now) = level g"
  "lastActivity (updateStreak g now) = now"
  "streak_current (updateStreak g now) =
     (if (now - lastActivity g) div 86400000 = 1 then streak_current g + 1
      else if (now - lastActivity g) div 86400000 > 1 then 1
      else streak_current g)"
  "streak_longest (updateStreak g now) =
     max (streak_longest g) (streak_current (updateStreak g now))"
  by (simp_all add: updateStreak_def Let_def max_def)

lemma checkBadges_fields [simp]:
  "xp (fst (checkBadges g)) = xp g"
  "level (fst (checkBadges g)) = level g"
  "streak_current (fst (checkBadges g)) = streak_current g"
  "streak_longest (fst (checkBadges g)) = streak_longest g"
  "lastActivity (fst (checkBadges g)) = lastActivity g"
  by (simp_all add: checkBadges_def Let_def)

text \<open>The game state that \<open>updateGameState\<close> works on.\<close>

lemma updateGameState_fst:
  "fst (updateGameState found att qz clk) =
     fst (checkBadges (updateStreak (updateStats
       (fst (addXP (case found of None \<Rightarrow> new_GameState (clk_created clk) | Some g \<Rightarrow> g)
               (quizXP att qz) (clk_levelup clk))) att) (clk_reward clk)))"
  by (simp add: updateGameState_def Let_def case_prod_beta)

lemma updateGameState_xpGained:
  "rr_xpGained (snd (updateGameState found att qz clk)) = quizXP att qz"
  by (simp add: updateGameState_def Let_def case_prod_beta)

lemma level_170: "li_level (calculateLevel (g\<lparr>xp := 170\<rparr>)) = 2"
  by (simp add: calculateLevel_def level_loop.simps)

section \<open>Elapsed days\<close>

lemma one_day_div:
  fixes x :: int
  shows "0 \<le> x \<Longrightarrow> x < 86400000 \<Longrightarrow> x div 86400000 = 0"
    and "86400000 \<le> x \<Longrightarrow> 1 \<le> x div 86400000"
    and "1 \<le> x div 86400000 \<Longrightarrow> 86400000 \<le> x"
  by auto

lemma later_day:
  assumes "86400000 \<le> b - a"
  shows "spec_calendarDay a < spec_calendarDay b"
proof -
  from assms have "a + 86400000 \<le> b" by simp
  then have "(a + 86400000) div 86400000 \<le> b div 86400000"
    by (rule zdiv_mono1) simp
  then show ?thesis
    by (simp add: spec_calendarDay_def)
qed

section \<open>Topic entries under the mastery update\<close>

lemma findIndex_Some:
  "findIndex P xs = Some i \<Longrightarrow> i < length xs \<and> P (xs ! i)"
proof (induction xs arbitrary: i)
  case Nil
  then show ?case by simp
next
  case (Cons x xs)
  then show ?case
    by (cases "P x") (auto simp: nth_Cons')
qed

lemma tm_topic_bumpEntry [simp]: "tm_topic (bumpEntry c e) = tm_topic e"
  by (simp add: bumpEntry_def Let_def)

lemma questionsAnswered_bumpEntry [simp]:
  "questionsAnswered (bumpEntry c e) = questionsAnswered e + 1"
  by (simp add: bumpEntry_def Let_def)

lemma masteryConsistent_bumpEntry [simp]: "masteryConsistent (bumpEntry c e)"
  by (simp add: masteryConsistent_def bumpEntry_def Let_def percent_def)

lemma firstEntryCounts_update:
  "findIndex (\<lambda>tm. tm_topic tm = t) es = Some i \<Longrightarrow> firstEntryCounts es
     \<Longrightarrow> firstEntryCounts (es[i := bumpEntry c (es ! i)])"
proof (induction es arbitrary: i)
  case Nil
  then show ?case by simp
next
  case (Cons e es)
  show ?case
  proof (cases "tm_topic e = t")
    case True
    with Cons.prems show ?thesis by simp
  next
    case False
    with Cons.prems obtain j where j: "findIndex (\<lambda>tm. tm_topic tm = t) es = Some j" "i = Suc j"
      by auto
    from findIndex_Some [OF j(1)] have jl: "j < length es" and jt: "tm_topic (es ! j) = t"
      by simp_all
    from Cons.IH [OF j(1)] Cons.prems(2)
    have ih: "firstEntryCounts (es[j := bumpEntry c (es ! j)])"
      by simp
    have "\<forall>u \<in> set (es[j := bumpEntry c (es ! j)]).
        tm_topic u = tm_topic e \<longrightarrow> questionsAnswered u = 0"
    proof
      fix u assume "u \<in> set (es[j := bumpEntry c (es ! j)])"
      then have "u = bumpEntry c (es ! j) \<or> u \<in> set es"
        using set_update_subset_insert [of es j "bumpEntry c (es ! j)"] by auto
      then show "tm_topic u = tm_topic e \<longrightarrow> questionsAnswered u = 0"
      proof
        assume "u = bumpEntry c (es ! j)"
        with jt False show ?thesis by simp
      next
        assume "u \<in> set es"
        with Cons.prems(2) show ?thesis by simp
      qed
    qed
    with ih j(2) show ?thesis by simp
  qed
qed

lemma firstEntryCounts_updateTopicMastery:
  "firstEntryCounts (topicMastery p)
     \<Longrightarrow> firstEntryCounts (topicMastery (updateTopicMastery q c p))"
  by (cases "findIndex (\<lambda>tm. tm_topic tm = topic q) (topicMastery p)")
     (simp_all add: updateTopicMastery_def firstEntryCounts_update)

lemma firstEntryCounts_unique:
  "firstEntryCounts es \<Longrightarrow> e1 \<in> set es \<Longrightarrow> e2 \<in> set es \<Longrightarrow> tm_topic e1 = tm_topic e2
     \<Longrightarrow> 0 < questionsAnswered e1 \<Longrightarrow> 0 < questionsAnswered e2 \<Longrightarrow> e1 = e2"
  by (induction es) auto

lemma firstEntryCounts_seed:
  "firstEntryCounts (map (\<lambda>name. \<lparr> tm_topic = name, mastery = 0, questionsAnswered = 0,
                                    tm_correctAnswers = 0 \<rparr>) names)"
  by (induction names) auto

lemma finalizeProgress_fields [simp]:
  "topicMastery (finalizeProgress a p) = topicMastery p"
  "weakTopics (finalizeProgress a p) =
     map tm_topic (filter (\<lambda>tm. mastery tm < 70 \<and> questionsAnswered tm > 0) (topicMastery p))"
  "strongTopics (finalizeProgress a p) =
     map tm_topic (filter (\<lambda>tm. mastery tm \<ge> 80 \<and> questionsAnswered tm > 0) (topicMastery p))"
  by (simp_all add: finalizeProgress_def Let_def)

lemma weak_strong_disjoint:
  assumes "firstEntryCounts es"
  shows "set (map tm_topic (filter (\<lambda>tm. mastery tm < 70 \<and> questionsAnswered tm > 0) es))
       \<inter> set (map tm_topic (filter (\<lambda>tm. mastery tm \<ge> 80 \<and> questionsAnswered tm > 0) es)) = {}"
proof -
  have "False"
    if w: "n \<in> set (map tm_topic (filter (\<lambda>tm. mastery tm < 70 \<and> questionsAnswered tm > 0) es))"
    and s: "n \<in> set (map tm_topic (filter (\<lambda>tm. mastery tm \<ge> 80 \<and> questionsAnswered tm > 0) es))"
    for n
  proof -
    from w obtain e1 where
      e1: "e1 \<in> set es" "tm_topic e1 = n" "mastery e1 < 70" "0 < questionsAnswered e1"
      by auto
    from s obtain e2 where
      e2: "e2 \<in> set es" "tm_topic e2 = n" "80 \<le> mastery e2" "0 < questionsAnswered e2"
      by auto
    from firstEntryCounts_unique [OF assms e1(1) e2(1)] e1 e2 have "e1 = e2"
      by simp
    with e1(3) e2(3) show False by simp
  qed
  then show ?thesis by blast
qed

lemma untouched_topic_unlisted:
  assumes "\<forall>e \<in> set es. tm_topic e = n \<longrightarrow> questionsAnswered e = 0"
  shows "n \<notin> set (map tm_topic (filter (\<lambda>tm. mastery tm < 70 \<and> questionsAnswered tm > 0) es))
       \<and> n \<notin> set (map tm_topic (filter (\<lambda>tm. mastery tm \<ge> 80 \<and> questionsAnswered tm > 0) es))"
  using assms by auto

lemma length_updateTopicMastery [simp]:
  "length (topicMastery (updateTopicMastery q c p)) = length (topicMastery p)"
  by (cases "findIndex (\<lambda>tm. tm_topic tm = topic q) (topicMastery p)")
     (simp_all add: updateTopicMastery_def)

lemma masteryConsistent_updateTopicMastery:
  assumes "\<forall>e \<in> set (topicMastery p). masteryConsistent e"
  shows "\<forall>e \<in> set (topicMastery (updateTopicMastery q c p)). masteryConsistent e"
proof (cases "findIndex (\<lambda>tm. tm_topic tm = topic q) (topicMastery p)")
  case None
  with assms show ?thesis by (simp add: updateTopicMastery_def)
next
  case (Some i)
  have "set ((topicMastery p)[i := bumpEntry c (topicMastery p ! i)])
      \<subseteq> insert (bumpEntry c (topicMastery p ! i)) (set (topicMastery p))"
    by (rule set_update_subset_insert)
  with assms Some show ?thesis
    by (auto simp add: updateTopicMastery_def)
qed

lemma updateTopicMastery_others:
  assumes "i < length (topicMastery p)"
    and "findIndex (\<lambda>tm. tm_topic tm = topic q) (topicMastery p) \<noteq> Some i"
  shows "topicMastery (updateTopicMastery q c p) ! i = topicMastery p ! i"
  using assms
  by (cases "findIndex (\<lambda>tm. tm_topic tm = topic q) (topicMastery p)")
     (auto simp add: updateTopicMastery_def)

lemma updateTopicMastery_hit:
  assumes "findIndex (\<lambda>tm. tm_topic tm = topic q) (topicMastery p) = Some i"
  shows "topicMastery (updateTopicMastery q c p) ! i = bumpEntry c (topicMastery p ! i)
       \<and> tm_topic (topicMastery p ! i) = topic q"
  using assms findIndex_Some [OF assms]
  by (simp add: updateTopicMastery_def)

lemma seed_consistent:
  "\<forall>e \<in> set (topicMastery (new_Progress qz)).
     masteryConsistent e \<and> mastery e = 0 \<and> questionsAnswered e = 0"
  by (auto simp add: new_Progress_def masteryConsistent_def)

section \<open>Claims\<close>

text \<open>
  C1 (as amended). For an attempt in progress, when an answer that the route accepts (a
  non-empty one) brings the number of answers to the quiz's total number of questions,
  the submit route marks the attempt completed, stamps the completion time and stores as
  score the exact quotient \<open>correctAnswers / totalQuestions * 100\<close>, which it does not
  round.
\<close>

theorem completion_score:
  fixes clk :: clock and req :: submit_request
  assumes "req_role req = Student"
    and "Attempt_coll d (req_attemptId req) = Some att"
    and "student att = req_user req"
    and "Quiz_coll d (att_quiz att) = Some qz"
    and "find (\<lambda>q. questionId q = req_questionId req) (questions qz) = Some qn"
    and "req_answer req \<noteq> []"
    and "totalQuestions qz \<le> length (answers att) + 1"
    and "0 < totalQuestions qz"
    and "\<not> isCompleted att"
  shows "\<exists>d' a'. submitAnswer d req clk rnd =
             Inr (QuizCompleted (score a') (correctAnswers a') (totalQuestions qz)
                    (timeSpent a'), d')
          \<and> Attempt_coll d' (req_attemptId req) = Some a'
          \<and> isCompleted a'
          \<and> completedAt a' = Some (clk_completed clk)
          \<and> answers a' = answers att @
               [\<lparr> a_questionId = req_questionId req, a_answer = req_answer req,
                   isCorrect = isAnswerCorrect qn (req_answer req),
                   a_timeSpent = (case req_timeSpent req of None \<Rightarrow> 0 | Some t \<Rightarrow> t),
                   timestamp = clk_answer clk \<rparr>]
          \<and> correctAnswers a'
              = correctAnswers att + (if isAnswerCorrect qn (req_answer req) then 1 else 0)
          \<and> score a' = of_nat (correctAnswers a') / of_nat (totalQuestions qz) * 100"
  using submitAnswer_complete [OF assms(1-8), of clk rnd]
  by (simp add: completeAttempt_def answerData_def)

theorem completion_score_witness:
  "req_role (submitReq ''q3'' ''B'') = Student
   \<and> Attempt_coll db2 (req_attemptId (submitReq ''q3'' ''B'')) = Some attempt2
   \<and> student attempt2 = req_user (submitReq ''q3'' ''B'')
   \<and> Quiz_coll db2 (att_quiz attempt2) = Some quiz3
   \<and> find (\<lambda>q. questionId q = req_questionId (submitReq ''q3'' ''B'')) (questions quiz3)
        = Some (mkQuestion ''q3'' ''TB'' Hard)
   \<and> req_answer (submitReq ''q3'' ''B'') \<noteq> []
   \<and> totalQuestions quiz3 \<le> length (answers attempt2) + 1
   \<and> 0 < totalQuestions quiz3
   \<and> isCompleted attempt2 = False
   \<and> (\<exists>d' a'. submitAnswer db2 (submitReq ''q3'' ''B'') clock0 0 =
          Inr (QuizCompleted (score a') (correctAnswers a') (totalQuestions quiz3)
                 (timeSpent a'), d')
        \<and> Attempt_coll d' (req_attemptId (submitReq ''q3'' ''B'')) = Some a'
        \<and> isCompleted a'
        \<and> completedAt a' = Some (clk_completed clock0)
        \<and> score a' = of_nat (correctAnswers a') / of_nat (totalQuestions quiz3) * 100)"
proof -
  have h1: "req_role (submitReq ''q3'' ''B'') = Student"
    by code_simp
  have h2: "Attempt_coll db2 (req_attemptId (submitReq ''q3'' ''B'')) = Some attempt2"
    by code_simp
  have h3: "student attempt2 = req_user (submitReq ''q3'' ''B'')"
    by code_simp
  have h4: "Quiz_coll db2 (att_quiz attempt2) = Some quiz3"
    by code_simp
  have h5: "find (\<lambda>q. questionId q = req_questionId (submitReq ''q3'' ''B'')) (questions quiz3)
        = Some (mkQuestion ''q3'' ''TB'' Hard)"
    by code_simp
  have h6: "req_answer (submitReq ''q3'' ''B'') \<noteq> []"
    by code_simp
  have h7: "totalQuestions quiz3 \<le> length (answers attempt2) + 1"
    by code_simp
  have h8: "0 < totalQuestions quiz3"
    by code_simp
  have h9: "\<not> isCompleted attempt2"
    by code_simp
  from completion_score [OF h1 h2 h3 h4 h5 h6 h7 h8 h9, of clock0 0]
  have "\<exists>d' a'. submitAnswer db2 (submitReq ''q3'' ''B'') clock0 0 =
          Inr (QuizCompleted (score a') (correctAnswers a') (totalQuestions quiz3)
                 (timeSpent a'), d')
        \<and> Attempt_coll d' (req_attemptId (submitReq ''q3'' ''B'')) = Some a'
        \<and> isCompleted a'
        \<and> completedAt a' = Some (clk_completed clock0)
        \<and> score a' = of_nat (correctAnswers a') / of_nat (totalQuestions quiz3) * 100"
    by blast
  with h1 h2 h3 h4 h5 h6 h7 h8 h9 show ?thesis by simp
qed

text \<open>
  C1 as stated fails. With one correct answer out of three the stored score is \<open>100 / 3\<close>,
  which is not the rounded value 33. And the same request with an empty answer is
  refused: the attempt is not completed although the answer would have been its third.
\<close>

theorem completion_score_counterexample:
  "map_sum id fst (submitAnswer db2 (submitReq ''q3'' ''B'') clock0 0)
     = Inr (QuizCompleted (100 / 3) 1 3 30)
   \<and> Attempt_coll (after db2 (submitReq ''q3'' ''B'')) ''a1'' = Some
       \<lparr> student = ''s1'', att_quiz = ''z1'',
         answers =
           [\<lparr> a_questionId = ''q1'', a_answer = ''A'', isCorrect = True,
               a_timeSpent = 10, timestamp = 1000 \<rparr>,
            \<lparr> a_questionId = ''q2'', a_answer = ''B'', isCorrect = False,
               a_timeSpent = 10, timestamp = 1000 \<rparr>,
            \<lparr> a_questionId = ''q3'', a_answer = ''B'', isCorrect = False,
               a_timeSpent = 10, timestamp = 1000 \<rparr>],
         score = 100 / 3, att_totalQuestions = 3, correctAnswers = 1,
         timeSpent = 30, completedAt = Some 1001, isCompleted = True \<rparr>
   \<and> (100 / 3 :: rat) \<noteq> of_int (round (of_nat 1 / of_nat 3 * 100 :: rat))
   \<and> map_sum id fst (submitAnswer db2 (submitReq ''q3'' []) clock0 0) = Inl ServerError
   \<and> Attempt_coll (after db2 (submitReq ''q3'' [])) ''a1'' = Some attempt2"
  by code_simp

text \<open>
  C2 (as amended). The submit route has no check for a question already answered: for an
  attempt in progress, a second answer to the same question is accepted like the first,
  provided it is not empty. It appends another answer record, adds the reported time and
  counts the answer again when it is correct.
\<close>

theorem resubmission_accepted:
  fixes clk :: clock and req :: submit_request
  assumes "req_role req = Student"
    and "Attempt_coll d (req_attemptId req) = Some att"
    and "student att = req_user req"
    and "Quiz_coll d (att_quiz att) = Some qz"
    and "find (\<lambda>q. questionId q = req_questionId req) (questions qz) = Some qn"
    and "req_answer req \<noteq> []"
    and "0 < totalQuestions qz"
    and "\<not> isCompleted att"
    and "req_questionId req \<in> a_questionId ` set (answers att)"
  shows "\<exists>r d' a'. submitAnswer d req clk rnd = Inr (r, d')
          \<and> Attempt_coll d' (req_attemptId req) = Some a'
          \<and> answers a' = answers att @
               [\<lparr> a_questionId = req_questionId req, a_answer = req_answer req,
                   isCorrect = isAnswerCorrect qn (req_answer req),
                   a_timeSpent = (case req_timeSpent req of None \<Rightarrow> 0 | Some t \<Rightarrow> t),
                   timestamp = clk_answer clk \<rparr>]
          \<and> timeSpent a'
              = timeSpent att + (case req_timeSpent req of None \<Rightarrow> 0 | Some t \<Rightarrow> t)
          \<and> correctAnswers a'
              = correctAnswers att + (if isAnswerCorrect qn (req_answer req) then 1 else 0)"
proof (cases "length (answers att) + 1 < totalQuestions qz")
  case True
  from submitAnswer_continue [OF assms(1-6) True, of clk rnd] show ?thesis
    by (simp add: answerData_def)
next
  case False
  then have "totalQuestions qz \<le> length (answers att) + 1" by simp
  from submitAnswer_complete [OF assms(1-6) this assms(7), of clk rnd] show ?thesis
    by (simp add: completeAttempt_def answerData_def)
qed

theorem resubmission_accepted_witness:
  "req_role (submitReq ''q1'' ''A'') = Student
   \<and> Attempt_coll db1 (req_attemptId (submitReq ''q1'' ''A'')) = Some attempt1
   \<and> student attempt1 = req_user (submitReq ''q1'' ''A'')
   \<and> Quiz_coll db1 (att_quiz attempt1) = Some quiz3
   \<and> find (\<lambda>q. questionId q = req_questionId (submitReq ''q1'' ''A'')) (questions quiz3)
        = Some (mkQuestion ''q1'' ''TA'' Easy)
   \<and> req_answer (submitReq ''q1'' ''A'') \<noteq> []
   \<and> 0 < totalQuestions quiz3
   \<and> isCompleted attempt1 = False
   \<and> req_questionId (submitReq ''q1'' ''A'') \<in> a_questionId ` set (answers attempt1)
   \<and> (\<exists>r d' a'. submitAnswer db1 (submitReq ''q1'' ''A'') clock0 0 = Inr (r, d')
        \<and> Attempt_coll d' (req_attemptId (submitReq ''q1'' ''A'')) = Some a'
        \<and> answers a' = answers attempt1 @
             [\<lparr> a_questionId = ''q1'', a_answer = ''A'', isCorrect = True,
                 a_timeSpent = 10, timestamp = 1000 \<rparr>]
        \<and> timeSpent a' = timeSpent attempt1 + 10
        \<and> correctAnswers a' = correctAnswers attempt1 + 1)"
proof -
  have h1: "req_role (submitReq ''q1'' ''A'') = Student"
    by code_simp
  have h2: "Attempt_coll db1 (req_attemptId (submitReq ''q1'' ''A'')) = Some attempt1"
    by code_simp
  have h3: "student attempt1 = req_user (submitReq ''q1'' ''A'')"
    by code_simp
  have h4: "Quiz_coll db1 (att_quiz attempt1) = Some quiz3"
    by code_simp
  have h5: "find (\<lambda>q. questionId q = req_questionId (submitReq ''q1'' ''A'')) (questions quiz3)
        = Some (mkQuestion ''q1'' ''TA'' Easy)"
    by code_simp
  have h6: "req_answer (submitReq ''q1'' ''A'') \<noteq> []"
    by code_simp
  have h7: "0 < totalQuestions quiz3"
    by code_simp
  have h8: "\<not> isCompleted attempt1"
    by code_simp
  have h9: "req_questionId (submitReq ''q1'' ''A'') \<in> a_questionId ` set (answers attempt1)"
    by (simp add: submitReq_def attempt1_def)
  have e: "req_questionId (submitReq ''q1'' ''A'') = ''q1''"
    "req_answer (submitReq ''q1'' ''A'') = ''A''"
    "(case req_timeSpent (submitReq ''q1'' ''A'') of None \<Rightarrow> 0 | Some t \<Rightarrow> t) = 10"
    "clk_answer clock0 = 1000"
    "isAnswerCorrect (mkQuestion ''q1'' ''TA'' Easy) ''A''"
    by (simp_all add: submitReq_def clock0_def isAnswerCorrect_def mkQuestion_def)
  from resubmission_accepted [OF h1 h2 h3 h4 h5 h6 h7 h8 h9, of clock0 0] e
  have "\<exists>r d' a'. submitAnswer db1 (submitReq ''q1'' ''A'') clock0 0 = Inr (r, d')
        \<and> Attempt_coll d' (req_attemptId (submitReq ''q1'' ''A'')) = Some a'
        \<and> answers a' = answers attempt1 @
             [\<lparr> a_questionId = ''q1'', a_answer = ''A'', isCorrect = True,
                 a_timeSpent = 10, timestamp = 1000 \<rparr>]
        \<and> timeSpent a' = timeSpent attempt1 + 10
        \<and> correctAnswers a' = correctAnswers attempt1 + 1"
    by simp
  with h1 h2 h3 h4 h5 h6 h7 h8 h9 show ?thesis by simp
qed

text \<open>
  C2 as stated fails: after \<open>q1\<close> is answered, a second answer to \<open>q1\<close> gets the normal
  response, and the attempt then holds two answers, two correct answers and 20 seconds.
\<close>

theorem resubmission_counterexample:
  "Attempt_coll db1 ''a1'' = Some attempt1
   \<and> map_sum id fst (submitAnswer db1 (submitReq ''q1'' ''A'') clock0 0)
       = Inr (AnswerSubmitted True ''A'' [] (Some (mkQuestion ''q2'' ''TA'' Medium)) 3 1780)
   \<and> Attempt_coll (after db1 (submitReq ''q1'' ''A'')) ''a1'' = Some
       \<lparr> student = ''s1'', att_quiz = ''z1'',
         answers =
           [\<lparr> a_questionId = ''q1'', a_answer = ''A'', isCorrect = True,
               a_timeSpent = 10, timestamp = 1000 \<rparr>,
            \<lparr> a_questionId = ''q1'', a_answer = ''A'', isCorrect = True,
               a_timeSpent = 10, timestamp = 1000 \<rparr>],
         score = 0, att_totalQuestions = 3, correctAnswers = 2,
         timeSpent = 20, completedAt = None, isCompleted = False \<rparr>"
  by code_simp

text \<open>
  C3 (as amended). The route \<open>GET /adaptive/next/:attemptId\<close>, for an adaptive quiz and
  an attempt with at least one answer, aims at the difficulty given by the accuracy
  (correct answers by answers): hard from 0.8, medium from 0.6, easy below. It returns the
  first question in question order that has that difficulty and no answer in the attempt;
  only when there is none, the first question that has no answer in the attempt; and when
  every question has an answer, the completion notice.
\<close>

theorem adaptive_next_difficulty:
  assumes "Attempt_coll d aid = Some att"
    and "student att = user"
    and "Quiz_coll d (att_quiz att) = Some qz"
    and "adaptiveMode qz"
    and "answers att \<noteq> []"
  shows "(let c = length (filter isCorrect (answers att));
              n = length (answers att);
              acc = (of_nat c / of_nat n :: rat);
              target = (if acc \<ge> 8 / 10 then Hard else if acc \<ge> 6 / 10 then Medium else Easy);
              pool = filter (\<lambda>q. difficulty q = target
                                \<and> questionId q \<notin> a_questionId ` set (answers att))
                       (questions qz);
              rest = filter (\<lambda>q. questionId q \<notin> a_questionId ` set (answers att))
                       (questions qz)
          in (pool \<noteq> [] \<longrightarrow>
                adaptiveNext d Student user aid = Inr (AdaptiveNext (hd pool) (n + 1) acc target)
                \<and> hd pool \<in> set (questions qz) \<and> difficulty (hd pool) = target
                \<and> questionId (hd pool) \<notin> a_questionId ` set (answers att))
           \<and> (pool = [] \<and> rest \<noteq> [] \<longrightarrow>
                adaptiveNext d Student user aid = Inr (AdaptiveNext (hd rest) (n + 1) acc target)
                \<and> hd rest \<in> set (questions qz)
                \<and> questionId (hd rest) \<notin> a_questionId ` set (answers att))
           \<and> (rest = [] \<longrightarrow>
                adaptiveNext d Student user aid = Inr (AdaptiveComplete acc target)))"
proof -
  define c where "c = length (filter isCorrect (answers att))"
  define n where "n = length (answers att)"
  define acc where "acc = (of_nat c / of_nat n :: rat)"
  define target where
    "target = (if acc \<ge> 8 / 10 then Hard else if acc \<ge> 6 / 10 then Medium else Easy)"
  define pool where
    "pool = filter (\<lambda>q. difficulty q = target
                         \<and> questionId q \<notin> a_questionId ` set (answers att)) (questions qz)"
  define rest where
    "rest = filter (\<lambda>q. questionId q \<notin> a_questionId ` set (answers att)) (questions qz)"
  from assms(5) have n0: "n \<noteq> 0" by (simp add: n_def)
  have t: "nextDifficulty c n = target"
    by (simp add: target_def acc_def nextDifficulty_def Let_def)
  have pe: "availableQuestions qz att target = pool"
    by (simp add: availableQuestions_def pool_def answered_iff)
  have re: "allRemainingQuestions qz att = rest"
    by (simp add: allRemainingQuestions_def rest_def answered_iff)
  have run: "adaptiveNext d Student user aid =
      (if length pool = 0
       then (if length rest = 0 then Inr (AdaptiveComplete acc target)
             else Inr (AdaptiveNext (hd rest) (n + 1) acc target))
       else Inr (AdaptiveNext (hd pool) (n + 1) acc target))"
    using assms(1-4) n0 t pe re
    by (simp add: adaptiveNext_def Let_def c_def [symmetric] n_def [symmetric]
        acc_def [symmetric])
  have p: "pool \<noteq> [] \<Longrightarrow> hd pool \<in> set (questions qz) \<and> difficulty (hd pool) = target
      \<and> questionId (hd pool) \<notin> a_questionId ` set (answers att)"
    unfolding pool_def
    using hd_filter [of "\<lambda>q. difficulty q = target
        \<and> questionId q \<notin> a_questionId ` set (answers att)" "questions qz"]
    by simp
  have r: "rest \<noteq> [] \<Longrightarrow> hd rest \<in> set (questions qz)
      \<and> questionId (hd rest) \<notin> a_questionId ` set (answers att)"
    unfolding rest_def
    using hd_filter [of "\<lambda>q. questionId q \<notin> a_questionId ` set (answers att)" "questions qz"]
    by simp
  have pr: "rest = [] \<Longrightarrow> pool = []"
    unfolding rest_def pool_def
    by (rule filter_conj_empty)
  from run p r pr show ?thesis
    unfolding Let_def c_def [symmetric] n_def [symmetric] acc_def [symmetric]
      target_def [symmetric] pool_def [symmetric] rest_def [symmetric]
    by auto
qed

text \<open>
  The witness runs the route on the quiz with the hard questions first. After a wrong
  answer to \<open>e1\<close> (accuracy 0/1) the first unanswered question is \<open>h3\<close> and the route
  returns the easy question \<open>e3\<close>; after two right answers more (accuracy 2/3) it
  returns the medium question \<open>m3\<close>; with all easy questions answered wrongly it falls
  back to \<open>h3\<close>; with every question answered it gives the completion notice.
\<close>

theorem adaptive_next_difficulty_witness:
  "Attempt_coll (db9r [wrongAnswer ''e1''] 0) ''a9'' = Some (attempt9r [wrongAnswer ''e1''] 0)
   \<and> student (attempt9r [wrongAnswer ''e1''] 0) = ''s1''
   \<and> Quiz_coll (db9r [wrongAnswer ''e1''] 0) (att_quiz (attempt9r [wrongAnswer ''e1''] 0))
       = Some quiz9r
   \<and> adaptiveMode quiz9r
   \<and> answers (attempt9r [wrongAnswer ''e1''] 0) \<noteq> []
   \<and> hd (filter (\<lambda>q. questionId q
                     \<notin> a_questionId ` set (answers (attempt9r [wrongAnswer ''e1''] 0)))
            (questions quiz9r)) = mkQuestion ''h3'' ''T3'' Hard
   \<and> adaptiveNext (db9r [wrongAnswer ''e1''] 0) Student ''s1'' ''a9''
       = Inr (AdaptiveNext (mkQuestion ''e3'' ''T1'' Easy) 2 0 Easy)
   \<and> adaptiveNext (db9r [wrongAnswer ''e1'', rightAnswer ''e2'', rightAnswer ''e3''] 2)
         Student ''s1'' ''a9''
       = Inr (AdaptiveNext (mkQuestion ''m3'' ''T2'' Medium) 4 (2 / 3) Medium)
   \<and> adaptiveNext (db9r [wrongAnswer ''e1'', wrongAnswer ''e2'', wrongAnswer ''e3''] 0)
         Student ''s1'' ''a9''
       = Inr (AdaptiveNext (mkQuestion ''h3'' ''T3'' Hard) 4 0 Easy)
   \<and> adaptiveNext (db9r (map wrongAnswer (map questionId (questions quiz9r))) 0)
         Student ''s1'' ''a9''
       = Inr (AdaptiveComplete 0 Easy)"
proof -
  let ?a1 = "[wrongAnswer ''e1'']"
  let ?a2 = "[wrongAnswer ''e1'', rightAnswer ''e2'', rightAnswer ''e3'']"
  let ?a3 = "[wrongAnswer ''e1'', wrongAnswer ''e2'', wrongAnswer ''e3'']"
  let ?a4 = "map wrongAnswer (map questionId (questions quiz9r))"
  have md: "adaptiveMode quiz9r"
    by code_simp
  have a1: "Attempt_coll (db9r ?a1 0) ''a9'' = Some (attempt9r ?a1 0)"
    "student (attempt9r ?a1 0) = ''s1''"
    "Quiz_coll (db9r ?a1 0) (att_quiz (attempt9r ?a1 0)) = Some quiz9r"
    "answers (attempt9r ?a1 0) \<noteq> []"
    by code_simp+
  have a2: "Attempt_coll (db9r ?a2 2) ''a9'' = Some (attempt9r ?a2 2)"
    "student (attempt9r ?a2 2) = ''s1''"
    "Quiz_coll (db9r ?a2 2) (att_quiz (attempt9r ?a2 2)) = Some quiz9r"
    "answers (attempt9r ?a2 2) \<noteq> []"
    by code_simp+
  have a3: "Attempt_coll (db9r ?a3 0) ''a9'' = Some (attempt9r ?a3 0)"
    "student (attempt9r ?a3 0) = ''s1''"
    "Quiz_coll (db9r ?a3 0) (att_quiz (attempt9r ?a3 0)) = Some quiz9r"
    "answers (attempt9r ?a3 0) \<noteq> []"
    by code_simp+
  have a4: "Attempt_coll (db9r ?a4 0) ''a9'' = Some (attempt9r ?a4 0)"
    "student (attempt9r ?a4 0) = ''s1''"
    "Quiz_coll (db9r ?a4 0) (att_quiz (attempt9r ?a4 0)) = Some quiz9r"
    "answers (attempt9r ?a4 0) \<noteq> []"
    by code_simp+
  have e1: "length (filter isCorrect (answers (attempt9r ?a1 0))) = 0"
    "length (answers (attempt9r ?a1 0)) = 1"
    "filter (\<lambda>q. difficulty q = Easy
               \<and> questionId q \<notin> a_questionId ` set (answers (attempt9r ?a1 0)))
       (questions quiz9r)
     = [mkQuestion ''e3'' ''T1'' Easy, mkQuestion ''e2'' ''T1'' Easy]"
    by code_simp+
  have f1: "hd (filter (\<lambda>q. questionId q \<notin> a_questionId ` set (answers (attempt9r ?a1 0)))
                  (questions quiz9r)) = mkQuestion ''h3'' ''T3'' Hard"
    by code_simp
  have e2: "length (filter isCorrect (answers (attempt9r ?a2 2))) = 2"
    "length (answers (attempt9r ?a2 2)) = 3"
    "filter (\<lambda>q. difficulty q = Medium
               \<and> questionId q \<notin> a_questionId ` set (answers (attempt9r ?a2 2)))
       (questions quiz9r)
     = [mkQuestion ''m3'' ''T2'' Medium, mkQuestion ''m2'' ''T2'' Medium,
        mkQuestion ''m1'' ''T2'' Medium]"
    by code_simp+
  have e3: "length (filter isCorrect (answers (attempt9r ?a3 0))) = 0"
    "length (answers (attempt9r ?a3 0)) = 3"
    "filter (\<lambda>q. difficulty q = Easy
               \<and> questionId q \<notin> a_questionId ` set (answers (attempt9r ?a3 0)))
       (questions quiz9r) = []"
    "filter (\<lambda>q. questionId q \<notin> a_questionId ` set (answers (attempt9r ?a3 0)))
       (questions quiz9r)
     = [mkQuestion ''h3'' ''T3'' Hard, mkQuestion ''h2'' ''T3'' Hard,
        mkQuestion ''h1'' ''T3'' Hard, mkQuestion ''m3'' ''T2'' Medium,
        mkQuestion ''m2'' ''T2'' Medium, mkQuestion ''m1'' ''T2'' Medium]"
    by code_simp+
  have e4: "length (filter isCorrect (answers (attempt9r ?a4 0))) = 0"
    "length (answers (attempt9r ?a4 0)) = 9"
    "filter (\<lambda>q. questionId q \<notin> a_questionId ` set (answers (attempt9r ?a4 0)))
       (questions quiz9r) = []"
    by code_simp+
  from adaptive_next_difficulty [OF a1(1-3) md a1(4)] e1
  have r1: "adaptiveNext (db9r ?a1 0) Student ''s1'' ''a9''
       = Inr (AdaptiveNext (mkQuestion ''e3'' ''T1'' Easy) 2 0 Easy)"
    by (simp add: Let_def)
  from adaptive_next_difficulty [OF a2(1-3) md a2(4)] e2
  have r2: "adaptiveNext (db9r ?a2 2) Student ''s1'' ''a9''
       = Inr (AdaptiveNext (mkQuestion ''m3'' ''T2'' Medium) 4 (2 / 3) Medium)"
    by (simp add: Let_def)
  from adaptive_next_difficulty [OF a3(1-3) md a3(4)] e3
  have r3: "adaptiveNext (db9r ?a3 0) Student ''s1'' ''a9''
       = Inr (AdaptiveNext (mkQuestion ''h3'' ''T3'' Hard) 4 0 Easy)"
    by (simp add: Let_def)
  from adaptive_next_difficulty [OF a4(1-3) md a4(4)] e4
  have r4: "adaptiveNext (db9r ?a4 0) Student ''s1'' ''a9'' = Inr (AdaptiveComplete 0 Easy)"
    by (simp add: Let_def)
  from md a1 f1 r1 r2 r3 r4 show ?thesis
    by simp
qed

text \<open>
  C3 as stated fails for the next question that the submit route itself returns, which
  \<open>getNextQuestion\<close> selects without looking at difficulty. In the adaptive quiz, on a
  first attempt, after one wrong answer (accuracy 0/1) and with two easy questions
  unanswered, the draw 9/10 makes it return the hard question \<open>h3\<close>; and with a progress
  record that lists the topic of the hard questions as weak it returns the hard question
  \<open>h1\<close> whatever the draw.
\<close>

theorem adaptive_next_difficulty_counterexample:
  "adaptiveMode quiz9
   \<and> map_sum id fst (submitAnswer db9start (submitReq9 ''e1'' ''B'') clock0 (9 / 10))
       = Inr (AnswerSubmitted False ''A'' [] (Some (mkQuestion ''h3'' ''T3'' Hard)) 2 1790)
   \<and> Attempt_coll (after db9start (submitReq9 ''e1'' ''B'')) ''a9'' = Some attempt9
   \<and> length (filter isCorrect (answers attempt9)) = 0
   \<and> length (answers attempt9) = 1
   \<and> filter (\<lambda>q. difficulty q = Easy \<and> questionId q \<notin> a_questionId ` set (answers attempt9))
        (questions quiz9)
       = [mkQuestion ''e2'' ''T1'' Easy, mkQuestion ''e3'' ''T1'' Easy]
   \<and> getNextQuestion quiz9 attempt9 (Some progress9) 0 = Some (mkQuestion ''h1'' ''T3'' Hard)
   \<and> difficulty (mkQuestion ''h1'' ''T3'' Hard) = Hard
   \<and> difficulty (mkQuestion ''h3'' ''T3'' Hard) = Hard"
  by code_simp

text \<open>
  C4. The experience awarded for a completed attempt is 50, plus ten times the whole
  number of tens in the score, plus 20 when the time spent in seconds is less than 30 times
  the time limit in minutes. It depends on the score, the time spent and the time limit
  only, and it is added to the student's xp. A student at 0 xp who scores 100 in less than
  half the time limit gains 170 xp and is at level 2.
\<close>

theorem reward_xp:
  "rr_xpGained (snd (updateGameState found att qz clk))
     = 50 + \<lfloor>score att / 10\<rfloor> * 10 + (if timeSpent att < timeLimit qz * 30 then 20 else 0)
   \<and> xp (fst (updateGameState found att qz clk))
     = xp (case found of None \<Rightarrow> new_GameState (clk_created clk) | Some g \<Rightarrow> g)
       + (50 + \<lfloor>score att / 10\<rfloor> * 10 + (if timeSpent att < timeLimit qz * 30 then 20 else 0))
   \<and> (score att = score att' \<and> timeSpent att = timeSpent att' \<and> timeLimit qz = timeLimit qz' \<longrightarrow>
        rr_xpGained (snd (updateGameState found att qz clk))
          = rr_xpGained (snd (updateGameState found' att' qz' clk')))
   \<and> (xp (case found of None \<Rightarrow> new_GameState (clk_created clk) | Some g \<Rightarrow> g) = 0
        \<and> score att = 100 \<and> timeSpent att < timeLimit qz * 30 \<longrightarrow>
        rr_xpGained (snd (updateGameState found att qz clk)) = 170
        \<and> xp (fst (updateGameState found att qz clk)) = 170
        \<and> level (fst (updateGameState found att qz clk)) = 2)"
proof -
  have q: "quizXP att qz
      = 50 + \<lfloor>score att / 10\<rfloor> * 10 + (if timeSpent att < timeLimit qz * 30 then 20 else 0)"
    by (simp add: quizXP_def Let_def)
  have a: "rr_xpGained (snd (updateGameState found att qz clk)) = quizXP att qz"
    by (rule updateGameState_xpGained)
  have b: "xp (fst (updateGameState found att qz clk))
      = xp (case found of None \<Rightarrow> new_GameState (clk_created clk) | Some g \<Rightarrow> g)
        + quizXP att qz"
    by (simp add: updateGameState_fst)
  have c: "score att = score att' \<and> timeSpent att = timeSpent att' \<and> timeLimit qz = timeLimit qz'
      \<longrightarrow> quizXP att qz = quizXP att' qz'"
    by (simp add: quizXP_def)
  have d: "xp (case found of None \<Rightarrow> new_GameState (clk_created clk) | Some g \<Rightarrow> g) = 0
      \<and> score att = 100 \<and> timeSpent att < timeLimit qz * 30 \<longrightarrow>
        quizXP att qz = 170 \<and> level (fst (updateGameState found att qz clk)) = 2"
    by (simp add: updateGameState_fst quizXP_def level_170)
  from a b c d q show ?thesis
    by (simp add: updateGameState_xpGained)
qed

theorem reward_xp_witness:
  "score attemptFull = score attemptFull \<and> timeSpent attemptFull = timeSpent attemptFull
   \<and> timeLimit quiz3 = timeLimit quiz9
   \<and> rr_xpGained (snd (updateGameState None attemptFull quiz3 clock0))
        = rr_xpGained (snd (updateGameState (Some gameState3) attemptFull quiz9 (clockAt 5)))
   \<and> xp (case None of None \<Rightarrow> new_GameState (clk_created clock0) | Some g \<Rightarrow> g) = 0
   \<and> score attemptFull = 100 \<and> timeSpent attemptFull < timeLimit quiz3 * 30
   \<and> rr_xpGained (snd (updateGameState None attemptFull quiz3 clock0)) = 170
   \<and> xp (fst (updateGameState None attemptFull quiz3 clock0)) = 170
   \<and> level (fst (updateGameState None attemptFull quiz3 clock0)) = 2"
proof -
  have h1: "timeLimit quiz3 = timeLimit quiz9" by code_simp
  have h2: "xp (case None of None \<Rightarrow> new_GameState (clk_created clock0) | Some g \<Rightarrow> g) = 0"
    by code_simp
  have h3: "score attemptFull = 100" by code_simp
  have h4: "timeSpent attemptFull < timeLimit quiz3 * 30" by code_simp
  from reward_xp [where found = None and att = attemptFull and qz = quiz3 and clk = clock0
      and att' = attemptFull and qz' = quiz9 and found' = "Some gameState3"
      and clk' = "clockAt 5"] h1 h2 h3 h4
  show ?thesis by simp
qed

text \<open>
  C5. The level is a function of the cumulative xp alone and is monotone in it:
  \<open>calculateLevel\<close> on two game states with the same xp returns the same result, a larger
  xp never gives a smaller level, and \<open>addXP\<close> stores the new xp total and the level that
  \<open>calculateLevel\<close> computes from that total, whatever level was stored before. A
  newly constructed game state stores the level of its xp as well.
\<close>

theorem level_pure_monotone:
  "(xp g1 = xp g2 \<longrightarrow> calculateLevel g1 = calculateLevel g2)
   \<and> (xp g3 \<le> xp g4 \<longrightarrow> li_level (calculateLevel g3) \<le> li_level (calculateLevel g4))
   \<and> xp (fst (addXP gs amount now)) = xp gs + amount
   \<and> level (fst (addXP gs amount now)) = li_level (calculateLevel (gs\<lparr>xp := xp gs + amount\<rparr>))
   \<and> level (fst (addXP gs amount now)) = li_level (calculateLevel (fst (addXP gs amount now)))
   \<and> level (new_GameState created) = li_level (calculateLevel (new_GameState created))"
proof -
  have i: "level (new_GameState created) = li_level (calculateLevel (new_GameState created))"
    by (simp add: new_GameState_def calculateLevel_def level_loop.simps)
  have a: "xp g1 = xp g2 \<longrightarrow> calculateLevel g1 = calculateLevel g2"
    by (simp add: calculateLevel_def)
  have b: "xp g3 \<le> xp g4 \<longrightarrow> li_level (calculateLevel g3) \<le> li_level (calculateLevel g4)"
    using level_loop_mono [of "xp g3" "xp g4" 1 100]
    by (simp add: calculateLevel_def case_prod_beta)
  have c: "xp (fst (addXP gs amount now)) = xp gs + amount"
    by (simp add: addXP_def Let_def)
  have d: "level (fst (addXP gs amount now))
      = li_level (calculateLevel (gs\<lparr>xp := xp gs + amount\<rparr>))"
    by (simp add: addXP_def Let_def)
  have e: "calculateLevel (fst (addXP gs amount now))
      = calculateLevel (gs\<lparr>xp := xp gs + amount\<rparr>)"
    by (simp add: addXP_def Let_def calculateLevel_def)
  from a b c d e i show ?thesis by simp
qed

theorem level_pure_monotone_witness:
  "xp (new_GameState 0) = xp (new_GameState 7)
   \<and> calculateLevel (new_GameState 0) = calculateLevel (new_GameState 7)
   \<and> xp (new_GameState 0) \<le> xp ((new_GameState 0)\<lparr>xp := 170\<rparr>)
   \<and> li_level (calculateLevel (new_GameState 0))
       \<le> li_level (calculateLevel ((new_GameState 0)\<lparr>xp := 170\<rparr>))"
  using level_pure_monotone [of "new_GameState 0" "new_GameState 7"
      "new_GameState 0" "(new_GameState 0)\<lparr>xp := 170\<rparr>"]
  by (simp add: new_GameState_def calculateLevel_def level_loop.simps)

text \<open>
  C6 (as amended). The streak update compares elapsed time, not calendar dates: with
  \<open>daysDiff\<close> the whole number of 24-hour periods between the last activity and the reward
  step, \<open>daysDiff = 1\<close> adds one to the current streak, \<open>daysDiff > 1\<close> resets it to 1,
  and otherwise it is unchanged; the longest streak becomes the maximum of itself and the
  current streak, and the last activity becomes the time of the reward step.
\<close>

theorem streak_update:
  "(let g0 = (case found of None \<Rightarrow> new_GameState (clk_created clk) | Some g \<Rightarrow> g);
        daysDiff = (clk_reward clk - lastActivity g0) div 86400000;
        g' = fst (updateGameState found att qz clk)
    in streak_current g' =
         (if daysDiff = 1 then streak_current g0 + 1
          else if daysDiff > 1 then 1
          else streak_current g0)
     \<and> streak_longest g' = max (streak_longest g0) (streak_current g')
     \<and> lastActivity g' = clk_reward clk)"
  by (simp add: updateGameState_fst Let_def)

theorem streak_update_witness:
  "streak_current gameState3 = 3 \<and> streak_longest gameState3 = 5
   \<and> (169200005 - lastActivity gameState3) div 86400000 = 1
   \<and> streak_current (fst (updateGameState (Some gameState3) attemptFull quiz3 (clockAt 169200005))) = 4
   \<and> streak_longest (fst (updateGameState (Some gameState3) attemptFull quiz3 (clockAt 169200005))) = 5
   \<and> lastActivity (fst (updateGameState (Some gameState3) attemptFull quiz3 (clockAt 169200005)))
       = 169200005"
  using streak_update [where found = "Some gameState3" and clk = "clockAt 169200005"
      and att = attemptFull and qz = quiz3]
  by (simp add: Let_def gameState3_def clockAt_def)

text \<open>
  C6 as stated fails. Last activity at 23:00 of day 0 and completion at 01:00 of day 1:
  the dates are one day apart and the streak stays at 3. Completion at 01:00 of day 2:
  the dates are two days apart and the streak goes to 4 instead of 1.
\<close>

theorem streak_update_counterexample:
  "streak_current gameState3 = 3
   \<and> spec_calendarDay 90000000 - spec_calendarDay (lastActivity gameState3) = 1
   \<and> streak_current (fst (updateGameState (Some gameState3) attemptFull quiz3 (clockAt 90000000))) = 3
   \<and> spec_calendarDay 176400000 - spec_calendarDay (lastActivity gameState3) = 2
   \<and> streak_current (fst (updateGameState (Some gameState3) attemptFull quiz3 (clockAt 176400000))) = 4"
  by code_simp

text \<open>
  C7. The answer that completes an attempt (a request that the route accepts, so with
  a non-empty answer) leaves in the stored progress record as weak
  topics exactly the names of the entries with mastery below 70 and at least one question
  answered, and as strong topics exactly the names of the entries with mastery of at least
  80 and at least one question answered. A topic none of whose entries has counted an
  answer is in neither list, and no topic is in both lists. The last point rests on the
  invariant \<open>firstEntryCounts\<close>, which the seeded record has (\<open>firstEntryCounts_seed\<close>)
  and which the update keeps.
\<close>

theorem weak_strong_topics:
  fixes clk :: clock and req :: submit_request
  assumes "req_role req = Student"
    and "Attempt_coll d (req_attemptId req) = Some att"
    and "student att = req_user req"
    and "Quiz_coll d (att_quiz att) = Some qz"
    and "find (\<lambda>q. questionId q = req_questionId req) (questions qz) = Some qn"
    and "totalQuestions qz \<le> length (answers att) + 1"
    and "0 < totalQuestions qz"
    and "Progress_coll d (req_user req, att_quiz att) = Some p"
    and "firstEntryCounts (topicMastery p)"
    and ne: "req_answer req \<noteq> []"
  shows "\<exists>r d' p'. submitAnswer d req clk rnd = Inr (r, d')
          \<and> Progress_coll d' (req_user req, att_quiz att) = Some p'
          \<and> weakTopics p' =
              map tm_topic (filter (\<lambda>tm. mastery tm < 70 \<and> questionsAnswered tm > 0)
                             (topicMastery p'))
          \<and> strongTopics p' =
              map tm_topic (filter (\<lambda>tm. mastery tm \<ge> 80 \<and> questionsAnswered tm > 0)
                             (topicMastery p'))
          \<and> (\<forall>n. (\<forall>e \<in> set (topicMastery p'). tm_topic e = n \<longrightarrow> questionsAnswered e = 0)
                 \<longrightarrow> n \<notin> set (weakTopics p') \<and> n \<notin> set (strongTopics p'))
          \<and> set (weakTopics p') \<inter> set (strongTopics p') = {}
          \<and> firstEntryCounts (topicMastery p')"
proof -
  let ?c = "isAnswerCorrect qn (req_answer req)"
  let ?a2 = "completeAttempt
      (of_nat (correctAnswers (recordAnswer qn req clk att)) / of_nat (totalQuestions qz) * 100)
      clk (recordAnswer qn req clk att)"
  let ?p' = "finalizeProgress ?a2 (updateTopicMastery qn ?c p)"
  let ?es = "topicMastery (updateTopicMastery qn ?c p)"
  from assms(9) have inv: "firstEntryCounts ?es"
    by (rule firstEntryCounts_updateTopicMastery)
  from submitAnswer_complete [OF assms(1-5) ne assms(6-7), of clk rnd] assms(8)
  have run: "\<exists>r d'. submitAnswer d req clk rnd = Inr (r, d')
      \<and> Progress_coll d' (req_user req, att_quiz att) = Some ?p'"
    by simp
  have w: "weakTopics ?p' =
      map tm_topic (filter (\<lambda>tm. mastery tm < 70 \<and> questionsAnswered tm > 0) (topicMastery ?p'))"
    by simp
  have s: "strongTopics ?p' =
      map tm_topic (filter (\<lambda>tm. mastery tm \<ge> 80 \<and> questionsAnswered tm > 0) (topicMastery ?p'))"
    by simp
  have u: "\<forall>n. (\<forall>e \<in> set (topicMastery ?p'). tm_topic e = n \<longrightarrow> questionsAnswered e = 0)
      \<longrightarrow> n \<notin> set (weakTopics ?p') \<and> n \<notin> set (strongTopics ?p')"
    using untouched_topic_unlisted [of ?es] by simp
  have dj: "set (weakTopics ?p') \<inter> set (strongTopics ?p') = {}"
    using weak_strong_disjoint [OF inv] by simp
  have i': "firstEntryCounts (topicMastery ?p')"
    using inv by simp
  from run w s u dj i' show ?thesis
    by blast
qed


theorem weak_strong_topics_witness:
  "req_role (submitReq ''q3'' ''B'') = Student
   \<and> Attempt_coll db2 (req_attemptId (submitReq ''q3'' ''B'')) = Some attempt2
   \<and> student attempt2 = req_user (submitReq ''q3'' ''B'')
   \<and> Quiz_coll db2 (att_quiz attempt2) = Some quiz3
   \<and> find (\<lambda>q. questionId q = req_questionId (submitReq ''q3'' ''B'')) (questions quiz3)
        = Some (mkQuestion ''q3'' ''TB'' Hard)
   \<and> totalQuestions quiz3 \<le> length (answers attempt2) + 1
   \<and> 0 < totalQuestions quiz3
   \<and> Progress_coll db2 (req_user (submitReq ''q3'' ''B''), att_quiz attempt2)
        = Some progress0
   \<and> firstEntryCounts (topicMastery progress0)
   \<and> req_answer (submitReq ''q3'' ''B'') \<noteq> []
   \<and> (\<exists>r d' p'. submitAnswer db2 (submitReq ''q3'' ''B'') clock0 0 = Inr (r, d')
        \<and> Progress_coll d' (req_user (submitReq ''q3'' ''B''), att_quiz attempt2) = Some p'
        \<and> weakTopics p' =
            map tm_topic (filter (\<lambda>tm. mastery tm < 70 \<and> questionsAnswered tm > 0)
                           (topicMastery p'))
        \<and> strongTopics p' =
            map tm_topic (filter (\<lambda>tm. mastery tm \<ge> 80 \<and> questionsAnswered tm > 0)
                           (topicMastery p'))
        \<and> set (weakTopics p') \<inter> set (strongTopics p') = {})"
proof -
  have h1: "req_role (submitReq ''q3'' ''B'') = Student"
    by code_simp
  have h2: "Attempt_coll db2 (req_attemptId (submitReq ''q3'' ''B'')) = Some attempt2"
    by code_simp
  have h3: "student attempt2 = req_user (submitReq ''q3'' ''B'')"
    by code_simp
  have h4: "Quiz_coll db2 (att_quiz attempt2) = Some quiz3"
    by code_simp
  have h5: "find (\<lambda>q. questionId q = req_questionId (submitReq ''q3'' ''B'')) (questions quiz3)
        = Some (mkQuestion ''q3'' ''TB'' Hard)"
    by code_simp
  have h6: "totalQuestions quiz3 \<le> length (answers attempt2) + 1"
    by code_simp
  have h7: "0 < totalQuestions quiz3"
    by code_simp
  have h8: "Progress_coll db2 (req_user (submitReq ''q3'' ''B''), att_quiz attempt2)
        = Some progress0"
    by code_simp
  have h9: "firstEntryCounts (topicMastery progress0)"
    by code_simp
  have h10: "req_answer (submitReq ''q3'' ''B'') \<noteq> []"
    by code_simp
  from weak_strong_topics [OF h1 h2 h3 h4 h5 h6 h7 h8 h9 h10, of clock0 0]
  have "\<exists>r d' p'. submitAnswer db2 (submitReq ''q3'' ''B'') clock0 0 = Inr (r, d')
        \<and> Progress_coll d' (req_user (submitReq ''q3'' ''B''), att_quiz attempt2) = Some p'
        \<and> weakTopics p' =
            map tm_topic (filter (\<lambda>tm. mastery tm < 70 \<and> questionsAnswered tm > 0)
                           (topicMastery p'))
        \<and> strongTopics p' =
            map tm_topic (filter (\<lambda>tm. mastery tm \<ge> 80 \<and> questionsAnswered tm > 0)
                           (topicMastery p'))
        \<and> set (weakTopics p') \<inter> set (strongTopics p') = {}"
    by blast
  with h1 h2 h3 h4 h5 h6 h7 h8 h9 h10 show ?thesis by blast
qed

text \<open>
  C8 (as amended). After a submit request that the route accepts, every topic entry of
  the stored progress record that has counted an answer stores the percentage of its own
  two counters, and every entry that has counted none stores 0, given that this held
  before (it holds for the seeded record); a request that the route refuses stores
  nothing. Every stored entry but the first entry of the answered question's topic is
  unchanged. The mastery update itself changes that one entry only, and the entry it
  writes stores the percentage of its counters.
\<close>

theorem mastery_tracking:
  fixes clk :: clock and req :: submit_request
  assumes "req_role req = Student"
    and "Attempt_coll d (req_attemptId req) = Some att"
    and "student att = req_user req"
    and "Quiz_coll d (att_quiz att) = Some qz"
    and "find (\<lambda>q. questionId q = req_questionId req) (questions qz) = Some qn"
    and "0 < totalQuestions qz"
    and "Progress_coll d (req_user req, att_quiz att) = Some p"
    and "\<forall>e \<in> set (topicMastery p). masteryConsistent e"
    and ne: "req_answer req \<noteq> []"
  shows "(\<exists>r d' p'. submitAnswer d req clk rnd = Inr (r, d')
           \<and> Progress_coll d' (req_user req, att_quiz att) = Some p'
           \<and> (\<forall>e \<in> set (topicMastery p'). masteryConsistent e)
           \<and> length (topicMastery p') = length (topicMastery p)
           \<and> (\<forall>i < length (topicMastery p).
                 findIndex (\<lambda>tm. tm_topic tm = topic qn) (topicMastery p) \<noteq> Some i
                 \<longrightarrow> topicMastery p' ! i = topicMastery p ! i))
         \<and> (\<forall>e \<in> set (topicMastery (updateTopicMastery qn (isAnswerCorrect qn (req_answer req)) p)).
               masteryConsistent e)
         \<and> (\<forall>i. findIndex (\<lambda>tm. tm_topic tm = topic qn) (topicMastery p) = Some i
               \<longrightarrow> (let e = topicMastery p ! i;
                        e' = topicMastery
                               (updateTopicMastery qn (isAnswerCorrect qn (req_answer req)) p) ! i
                    in tm_topic e = topic qn \<and> tm_topic e' = topic qn
                     \<and> questionsAnswered e' = questionsAnswered e + 1
                     \<and> tm_correctAnswers e' = tm_correctAnswers e
                          + (if isAnswerCorrect qn (req_answer req) then 1 else 0)
                     \<and> mastery e' = of_nat (tm_correctAnswers e') / of_nat (questionsAnswered e') * 100))
         \<and> (\<forall>e \<in> set (topicMastery (new_Progress qz0)).
               masteryConsistent e \<and> mastery e = 0 \<and> questionsAnswered e = 0)"
proof -
  let ?c = "isAnswerCorrect qn (req_answer req)"
  let ?u = "updateTopicMastery qn ?c p"
  have u: "\<forall>e \<in> set (topicMastery ?u). masteryConsistent e"
    using assms(8) by (rule masteryConsistent_updateTopicMastery)
  have o: "\<forall>i < length (topicMastery p).
      findIndex (\<lambda>tm. tm_topic tm = topic qn) (topicMastery p) \<noteq> Some i
      \<longrightarrow> topicMastery ?u ! i = topicMastery p ! i"
    by (simp add: updateTopicMastery_others)
  have h: "\<forall>i. findIndex (\<lambda>tm. tm_topic tm = topic qn) (topicMastery p) = Some i
      \<longrightarrow> (let e = topicMastery p ! i; e' = topicMastery ?u ! i
           in tm_topic e = topic qn \<and> tm_topic e' = topic qn
            \<and> questionsAnswered e' = questionsAnswered e + 1
            \<and> tm_correctAnswers e' = tm_correctAnswers e + (if ?c then 1 else 0)
            \<and> mastery e' = of_nat (tm_correctAnswers e') / of_nat (questionsAnswered e') * 100)"
    by (simp add: updateTopicMastery_hit Let_def bumpEntry_def)
  have run: "\<exists>r d' p'. submitAnswer d req clk rnd = Inr (r, d')
           \<and> Progress_coll d' (req_user req, att_quiz att) = Some p'
           \<and> topicMastery p' =
               (if totalQuestions qz \<le> length (answers att) + 1
                then topicMastery ?u else topicMastery p)"
  proof (cases "length (answers att) + 1 < totalQuestions qz")
    case True
    from submitAnswer_continue [OF assms(1-5) ne True, of clk rnd] assms(7) True show ?thesis
      by simp
  next
    case False
    then have "totalQuestions qz \<le> length (answers att) + 1" by simp
    from submitAnswer_complete [OF assms(1-5) ne this assms(6), of clk rnd] assms(7) this
    show ?thesis
      by simp
  qed
  then obtain r d' p' where
    r: "submitAnswer d req clk rnd = Inr (r, d')"
      "Progress_coll d' (req_user req, att_quiz att) = Some p'"
      "topicMastery p' =
        (if totalQuestions qz \<le> length (answers att) + 1 then topicMastery ?u else topicMastery p)"
    by blast
  from r(3) u assms(8) have c': "\<forall>e \<in> set (topicMastery p'). masteryConsistent e"
    by (simp split: if_splits)
  from r(3) have l': "length (topicMastery p') = length (topicMastery p)"
    by (simp split: if_splits)
  from r(3) o have o': "\<forall>i < length (topicMastery p).
      findIndex (\<lambda>tm. tm_topic tm = topic qn) (topicMastery p) \<noteq> Some i
      \<longrightarrow> topicMastery p' ! i = topicMastery p ! i"
    by (simp split: if_splits)
  from r c' l' o' u h seed_consistent [of qz0] show ?thesis
    by blast
qed

theorem mastery_tracking_witness:
  "req_role (submitReq ''q3'' ''B'') = Student
   \<and> Attempt_coll db2 (req_attemptId (submitReq ''q3'' ''B'')) = Some attempt2
   \<and> student attempt2 = req_user (submitReq ''q3'' ''B'')
   \<and> Quiz_coll db2 (att_quiz attempt2) = Some quiz3
   \<and> find (\<lambda>q. questionId q = req_questionId (submitReq ''q3'' ''B'')) (questions quiz3)
        = Some (mkQuestion ''q3'' ''TB'' Hard)
   \<and> 0 < totalQuestions quiz3
   \<and> Progress_coll db2 (req_user (submitReq ''q3'' ''B''), att_quiz attempt2)
        = Some progress0
   \<and> list_all masteryConsistent (topicMastery progress0)
   \<and> req_answer (submitReq ''q3'' ''B'') \<noteq> []
   \<and> (\<exists>r d' p'. submitAnswer db2 (submitReq ''q3'' ''B'') clock0 0 = Inr (r, d')
        \<and> Progress_coll d' (req_user (submitReq ''q3'' ''B''), att_quiz attempt2) = Some p'
        \<and> (\<forall>e \<in> set (topicMastery p'). masteryConsistent e)
        \<and> length (topicMastery p') = length (topicMastery progress0)
        \<and> topicMastery p' ! 0 = topicMastery progress0 ! 0)"
proof -
  have h1: "req_role (submitReq ''q3'' ''B'') = Student"
    by code_simp
  have h2: "Attempt_coll db2 (req_attemptId (submitReq ''q3'' ''B'')) = Some attempt2"
    by code_simp
  have h3: "student attempt2 = req_user (submitReq ''q3'' ''B'')"
    by code_simp
  have h4: "Quiz_coll db2 (att_quiz attempt2) = Some quiz3"
    by code_simp
  have h5: "find (\<lambda>q. questionId q = req_questionId (submitReq ''q3'' ''B'')) (questions quiz3)
        = Some (mkQuestion ''q3'' ''TB'' Hard)"
    by code_simp
  have h6: "0 < totalQuestions quiz3"
    by code_simp
  have h7: "Progress_coll db2 (req_user (submitReq ''q3'' ''B''), att_quiz attempt2)
        = Some progress0"
    by code_simp
  have l8: "list_all masteryConsistent (topicMastery progress0)"
    by code_simp
  then have h8: "\<forall>e \<in> set (topicMastery progress0). masteryConsistent e"
    by (simp add: list_all_iff)
  have i0: "0 < length (topicMastery progress0)"
    by code_simp
  have i1: "findIndex (\<lambda>tm. tm_topic tm = topic (mkQuestion ''q3'' ''TB'' Hard))
        (topicMastery progress0) \<noteq> Some 0"
    by code_simp
  have h9: "req_answer (submitReq ''q3'' ''B'') \<noteq> []"
    by code_simp
  from mastery_tracking [OF h1 h2 h3 h4 h5 h6 h7 h8 h9, of clock0 0] i0 i1
  have "\<exists>r d' p'. submitAnswer db2 (submitReq ''q3'' ''B'') clock0 0 = Inr (r, d')
        \<and> Progress_coll d' (req_user (submitReq ''q3'' ''B''), att_quiz attempt2) = Some p'
        \<and> (\<forall>e \<in> set (topicMastery p'). masteryConsistent e)
        \<and> length (topicMastery p') = length (topicMastery progress0)
        \<and> topicMastery p' ! 0 = topicMastery progress0 ! 0"
    by blast
  with h1 h2 h3 h4 h5 h6 h7 l8 h9 show ?thesis by blast
qed

text \<open>
  C8 as stated fails for an entry that has counted no answer: it stores the seeded
  mastery 0, while the quotient of its counters is 0 / 0, which is no number.
\<close>

theorem mastery_tracking_counterexample:
  "map_sum id fst (submitAnswer db_one (submitReq ''q1'' ''A'') clock0 0)
     = Inr (QuizCompleted 100 1 1 10)
   \<and> map_option topicMastery (Progress_coll (after db_one (submitReq ''q1'' ''A'')) (''s1'', ''z1''))
     = Some [\<lparr> tm_topic = ''TA'', mastery = 100, questionsAnswered = 1, tm_correctAnswers = 1 \<rparr>,
             \<lparr> tm_topic = ''TB'', mastery = 0, questionsAnswered = 0, tm_correctAnswers = 0 \<rparr>]
   \<and> percent 0 0 \<noteq> Some 0"
  by code_simp




text \<open>
  C10. A game state constructed in the reward step takes the construction time as its
  last activity; the reward step follows within a day, so the day difference is 0 and the
  first completed attempt leaves the current and the longest streak at 0. A current streak
  of 0 becomes positive exactly when the reward step comes at least 24 hours after the
  last activity, which is then on a later day.
\<close>

theorem first_reward_streak:
  "(clk_created clk \<le> clk_reward clk \<and> clk_reward clk - clk_created clk < 86400000 \<longrightarrow>
      (clk_reward clk - lastActivity (new_GameState (clk_created clk))) div 86400000 = 0
      \<and> streak_current (fst (updateGameState None att qz clk)) = 0
      \<and> streak_longest (fst (updateGameState None att qz clk)) = 0)
   \<and> (streak_current g = 0 \<and> 0 < streak_current (fst (updateGameState (Some g) att qz clk)) \<longrightarrow>
      86400000 \<le> clk_reward clk - lastActivity g
      \<and> spec_calendarDay (lastActivity g) < spec_calendarDay (clk_reward clk))
   \<and> (streak_current g = 0 \<and> 86400000 \<le> clk_reward clk - lastActivity g \<longrightarrow>
      streak_current (fst (updateGameState (Some g) att qz clk)) = 1)"
proof -
  have a: "clk_created clk \<le> clk_reward clk \<and> clk_reward clk - clk_created clk < 86400000 \<longrightarrow>
      (clk_reward clk - lastActivity (new_GameState (clk_created clk))) div 86400000 = 0
      \<and> streak_current (fst (updateGameState None att qz clk)) = 0
      \<and> streak_longest (fst (updateGameState None att qz clk)) = 0"
    using one_day_div(1) [of "clk_reward clk - clk_created clk"]
    by (simp add: updateGameState_fst new_GameState_def)
  have b1: "streak_current g = 0 \<and> 0 < streak_current (fst (updateGameState (Some g) att qz clk))
      \<longrightarrow> 86400000 \<le> clk_reward clk - lastActivity g"
    using one_day_div(3) [of "clk_reward clk - lastActivity g"]
    by (simp add: updateGameState_fst split: if_splits)
  have b: "streak_current g = 0 \<and> 0 < streak_current (fst (updateGameState (Some g) att qz clk))
      \<longrightarrow> 86400000 \<le> clk_reward clk - lastActivity g
      \<and> spec_calendarDay (lastActivity g) < spec_calendarDay (clk_reward clk)"
    using b1 later_day [where a = "lastActivity g" and b = "clk_reward clk"] by blast
  have c: "streak_current g = 0 \<and> 86400000 \<le> clk_reward clk - lastActivity g \<longrightarrow>
      streak_current (fst (updateGameState (Some g) att qz clk)) = 1"
  proof (intro impI, elim conjE)
    assume s: "streak_current g = 0" and e: "86400000 \<le> clk_reward clk - lastActivity g"
    from one_day_div(2) [OF e]
    have "(clk_reward clk - lastActivity g) div 86400000 = 1
        \<or> 1 < (clk_reward clk - lastActivity g) div 86400000"
      by linarith
    with s show "streak_current (fst (updateGameState (Some g) att qz clk)) = 1"
      by (auto simp add: updateGameState_fst)
  qed
  from a b c show ?thesis by blast
qed

theorem first_reward_streak_witness:
  "clk_created clock0 \<le> clk_reward clock0 \<and> clk_reward clock0 - clk_created clock0 < 86400000
   \<and> streak_current (fst (updateGameState None attemptFull quiz3 clock0)) = 0
   \<and> streak_longest (fst (updateGameState None attemptFull quiz3 clock0)) = 0
   \<and> streak_current (new_GameState 0) = 0
   \<and> 86400000 \<le> clk_reward (clockAt 90000000) - lastActivity (new_GameState 0)
   \<and> 0 < streak_current (fst (updateGameState (Some (new_GameState 0)) attemptFull quiz3 (clockAt 90000000)))
   \<and> spec_calendarDay (lastActivity (new_GameState 0)) < spec_calendarDay (clk_reward (clockAt 90000000))"
proof -
  have h1: "clk_created clock0 \<le> clk_reward clock0"
    by code_simp
  have h2: "clk_reward clock0 - clk_created clock0 < 86400000"
    by code_simp
  have h3: "streak_current (new_GameState 0) = 0"
    by code_simp
  have h4: "86400000 \<le> clk_reward (clockAt 90000000) - lastActivity (new_GameState 0)"
    by code_simp
  from first_reward_streak [where clk = clock0 and att = attemptFull and qz = quiz3
      and g = "new_GameState 0"] h1 h2
  have r1: "streak_current (fst (updateGameState None attemptFull quiz3 clock0)) = 0
      \<and> streak_longest (fst (updateGameState None attemptFull quiz3 clock0)) = 0"
    by blast
  note inst = first_reward_streak [where clk = "clockAt 90000000" and att = attemptFull
      and qz = quiz3 and g = "new_GameState 0"]
  from inst h3 h4
  have r2: "streak_current (fst (updateGameState (Some (new_GameState 0)) attemptFull quiz3 (clockAt 90000000))) = 1"
    by blast
  with inst h3
  have r3: "spec_calendarDay (lastActivity (new_GameState 0)) < spec_calendarDay (clk_reward (clockAt 90000000))"
    by simp
  from h1 h2 h3 h4 r1 r2 r3 show ?thesis by simp
qed

end
